theory Spec2Isabelle
  imports Main
begin

section \<open>Data model (lib/types.ts)\<close>

datatype color = White | Black

text \<open>
  A piece id is the string \<^verbatim>\<open>p-${r}-${c}-${seq}\<close> built by \<^verbatim>\<open>newPieceId\<close>; it is kept as the
  triple of numbers it is printed from.
\<close>

datatype piece_id = PieceId int int int

record piece =
  ptype :: string
  pcolor :: color
  pid :: piece_id
  isFrozen :: bool
  isJumpable :: bool
  hasMoved :: bool

record spell_state =
  jump :: nat
  freeze :: nat
  jumpLastUsedTurn :: nat
  freezeLastUsedTurn :: nat

record player_spells =
  white :: spell_state
  black :: spell_state

datatype spell_type = Jump | Freeze

text \<open>
  \<^verbatim>\<open>ActiveSpell\<close>: the engine builds exactly two shapes, a jump spell with \<^verbatim>\<open>targetId\<close> and
  a freeze spell with \<^verbatim>\<open>targetSquare\<close> and \<^verbatim>\<open>affectedPieceIds\<close>; both carry \<^verbatim>\<open>expiresAtPly\<close>.
\<close>

datatype active_spell =
    JumpSpell piece_id nat
  | FreezeSpell int int "piece_id list" nat

fun expiresAtPly :: "active_spell \<Rightarrow> nat" where
  "expiresAtPly (JumpSpell i e) = e"
| "expiresAtPly (FreezeSpell r c ids e) = e"

record castling_rights =
  white_K :: bool
  white_Q :: bool
  black_k :: bool
  black_q :: bool

record move_log_entry =
  turn :: nat
  player :: color
  notation_str :: string
  actions :: "string list"
  plySnapshotIndex :: nat

record awaiting_promotion =
  ap_r :: int
  ap_c :: int
  ap_color :: color
  originalMoveNotation :: string
  ap_movingPiece :: piece
  ap_fromR :: int
  ap_fromC :: int

type_synonym board = "piece option list list"

text \<open>\<^verbatim>\<open>GameSnapshot\<close> is \<^verbatim>\<open>GameState\<close> without \<^verbatim>\<open>history\<close> and \<^verbatim>\<open>repetitionCounter\<close>.\<close>

record game_snapshot =
  board :: board
  currentPlayer :: color
  gameTurnNumber :: nat
  plyCount :: nat
  spells :: player_spells
  activeSpells :: "active_spell list"
  moveLog :: "move_log_entry list"
  enPassantTarget :: "(int \<times> int) option"
  castlingRights :: castling_rights
  isGameOver :: bool
  gameEndMessage :: string
  awaitingPromotion :: "awaiting_promotion option"

record game_state = game_snapshot +
  history :: "game_snapshot list"
  repetitionCounter :: "string \<rightharpoonup> nat"

section \<open>Strings\<close>

text \<open>
  \<^verbatim>\<open>toLowerCase\<close> and \<^verbatim>\<open>toUpperCase\<close> on the ASCII letters; every piece type and token
  of the engine is ASCII.
\<close>

definition lower_letters :: string where
  "lower_letters = ''abcdefghijklmnopqrstuvwxyz''"

definition upper_letters :: string where
  "upper_letters = ''ABCDEFGHIJKLMNOPQRSTUVWXYZ''"

definition char_to_lower :: "char \<Rightarrow> char" where
  "char_to_lower ch = (case map_of (zip upper_letters lower_letters) ch of Some l \<Rightarrow> l | None \<Rightarrow> ch)"

definition char_to_upper :: "char \<Rightarrow> char" where
  "char_to_upper ch = (case map_of (zip lower_letters upper_letters) ch of Some u \<Rightarrow> u | None \<Rightarrow> ch)"

definition toLowerCase :: "string \<Rightarrow> string" where
  "toLowerCase s = map char_to_lower s"

definition toUpperCase :: "string \<Rightarrow> string" where
  "toUpperCase s = map char_to_upper s"

section \<open>Board access\<close>

text \<open>
  \<^verbatim>\<open>board[r][c]\<close>. A column outside the row reads \<^verbatim>\<open>undefined\<close>, which every use treats as
  an empty square. The engine never reads a row outside the board when it is called
  with squares of the board.
\<close>

definition on_board :: "int \<Rightarrow> int \<Rightarrow> bool" where
  "on_board r c = (0 \<le> r \<and> r < 8 \<and> 0 \<le> c \<and> c < 8)"

definition cell :: "board \<Rightarrow> int \<Rightarrow> int \<Rightarrow> piece option" where
  "cell b r c = (if 0 \<le> r \<and> r < 8 \<and> 0 \<le> c \<and> c < 8 then b ! nat r ! nat c else None)"

definition set_cell :: "board \<Rightarrow> int \<Rightarrow> int \<Rightarrow> piece option \<Rightarrow> board" where
  "set_cell b r c v = b[nat r := (b ! nat r)[nat c := v]]"

definition wf_board :: "board \<Rightarrow> bool" where
  "wf_board b = (length b = 8 \<and> list_all (\<lambda>row. length row = 8) b)"

definition all_squares :: "(int \<times> int) list" where
  "all_squares = concat (map (\<lambda>r. map (\<lambda>c. (r, c)) [0, 1, 2, 3, 4, 5, 6, 7]) [0, 1, 2, 3, 4, 5, 6, 7])"

text \<open>A scan of the squares in row-major order that stops at the first hit.\<close>

fun any_square :: "(int \<Rightarrow> int \<Rightarrow> bool) \<Rightarrow> (int \<times> int) list \<Rightarrow> bool" where
  "any_square P [] = False"
| "any_square P (sq # sqs) = (if P (fst sq) (snd sq) then True else any_square P sqs)"

fun first_square :: "(int \<Rightarrow> int \<Rightarrow> bool) \<Rightarrow> (int \<times> int) list \<Rightarrow> (int \<times> int) option" where
  "first_square P [] = None"
| "first_square P (sq # sqs) = (if P (fst sq) (snd sq) then Some sq else first_square P sqs)"

definition opponent :: "color \<Rightarrow> color" where
  "opponent c = (if c = White then Black else White)"

definition kingType :: "color \<Rightarrow> string" where
  "kingType c = (if c = White then ''K'' else ''k'')"

section \<open>Spell helpers\<close>

definition SPELL_COOLDOWN_TURNS :: nat where
  "SPELL_COOLDOWN_TURNS = 3"

definition isSpellOnCooldown :: "spell_state \<Rightarrow> spell_type \<Rightarrow> nat \<Rightarrow> bool" where
  "isSpellOnCooldown ss st currentTurn =
     (let lastUsed = (if st = Jump then jumpLastUsedTurn ss else freezeLastUsedTurn ss)
      in if lastUsed = 0 then False else currentTurn < lastUsed + SPELL_COOLDOWN_TURNS)"

definition spells_of :: "player_spells \<Rightarrow> color \<Rightarrow> spell_state" where
  "spells_of sp c = (if c = White then white sp else black sp)"

definition canCastSpell :: "('a game_snapshot_scheme) \<Rightarrow> spell_type \<Rightarrow> bool" where
  "canCastSpell s st =
     (let ps = spells_of (spells s) (currentPlayer s);
          count = (if st = Jump then jump ps else freeze ps)
      in if count \<le> 0 then False else \<not> isSpellOnCooldown ps st (gameTurnNumber s))"

fun isSquareUnderActiveFreeze :: "int \<Rightarrow> int \<Rightarrow> active_spell list \<Rightarrow> nat \<Rightarrow> bool" where
  "isSquareUnderActiveFreeze sqR sqC [] currentPly = False"
| "isSquareUnderActiveFreeze sqR sqC (JumpSpell i e # rest) currentPly =
     isSquareUnderActiveFreeze sqR sqC rest currentPly"
| "isSquareUnderActiveFreeze sqR sqC (FreezeSpell cr cc ids e # rest) currentPly =
     (if currentPly < e \<and>
         sqR \<ge> max 0 (cr - 1) \<and> sqR \<le> min 7 (cr + 1) \<and>
         sqC \<ge> max 0 (cc - 1) \<and> sqC \<le> min 7 (cc + 1)
      then True
      else isSquareUnderActiveFreeze sqR sqC rest currentPly)"

section \<open>Attack and path queries\<close>

text \<open>
  The loop of \<^verbatim>\<open>isPathClear\<close>: \<open>(r, c)\<close> walks from the square after the source in the
  direction \<open>(dr, dc)\<close> until it reaches the target or leaves the board. \<^verbatim>\<open>isPathClear\<close>
  enters it with \<open>dr = dc = 0\<close> only when source and target coincide, where the loop
  exits at once; the branch for a zero direction away from the target is never taken.
\<close>

function path_loop :: "int \<Rightarrow> int \<Rightarrow> int \<Rightarrow> int \<Rightarrow> int \<Rightarrow> int \<Rightarrow> board \<Rightarrow> bool" where
  "path_loop dr dc r c toR toC b =
     (if r = toR \<and> c = toC then True
      else if r < 0 \<or> r \<ge> 8 \<or> c < 0 \<or> c \<ge> 8 then False
      else if dr = 0 \<and> dc = 0 then False
      else (case cell b r c of
              Some p \<Rightarrow> if \<not> isJumpable p then False
                        else path_loop dr dc (r + dr) (c + dc) toR toC b
            | None \<Rightarrow> path_loop dr dc (r + dr) (c + dc) toR toC b))"
  by pat_completeness auto
termination
  by (relation "measure (\<lambda>(dr, dc, r, c, toR, toC, b).
        nat (if dr > 0 then 8 - r else if dr < 0 then r + 1
             else if dc > 0 then 8 - c else c + 1))") auto

definition isPathClear :: "int \<Rightarrow> int \<Rightarrow> int \<Rightarrow> int \<Rightarrow> board \<Rightarrow> bool" where
  "isPathClear fromR fromC toR toC b =
     (let dr = sgn (toR - fromR); dc = sgn (toC - fromC)
      in path_loop dr dc (fromR + dr) (fromC + dc) toR toC b)"

text \<open>
  The body of the double loop of \<^verbatim>\<open>isSquareAttacked\<close> for the square \<open>(r, c)\<close>: true when
  the iteration returns true.
\<close>

definition attacks_from ::
  "int \<Rightarrow> int \<Rightarrow> color \<Rightarrow> board \<Rightarrow> active_spell list \<Rightarrow> nat \<Rightarrow> int \<Rightarrow> int \<Rightarrow> bool" where
  "attacks_from targetR targetC attackerColor b activeSp currentPly r c =
     (case cell b r c of
        None \<Rightarrow> False
      | Some p \<Rightarrow>
          if pcolor p \<noteq> attackerColor then False
          else if (if isFrozen p then True else isSquareUnderActiveFreeze r c activeSp currentPly)
                  \<and> toLowerCase (ptype p) \<noteq> ''k'' then False
          else
            let t = toLowerCase (ptype p) in
            if t = ''p'' then
              (let dir = (if attackerColor = White then - 1 else 1)
               in r + dir = targetR \<and> \<bar>c - targetC\<bar> = 1)
            else if t = ''n'' then
              (let dr = \<bar>targetR - r\<bar>; dc = \<bar>targetC - c\<bar>
               in (dr = 2 \<and> dc = 1) \<or> (dr = 1 \<and> dc = 2))
            else if t = ''k'' then
              (\<bar>targetR - r\<bar> \<le> 1 \<and> \<bar>targetC - c\<bar> \<le> 1)
            else if (if (t = ''r'' \<or> t = ''q'') \<and> (r = targetR \<or> c = targetC)
                     then isPathClear r c targetR targetC b else False) then True
            else if (t = ''b'' \<or> t = ''q'') \<and> \<bar>targetR - r\<bar> = \<bar>targetC - c\<bar>
              then isPathClear r c targetR targetC b
            else False)"

definition isSquareAttacked ::
  "int \<Rightarrow> int \<Rightarrow> color \<Rightarrow> board \<Rightarrow> (int \<times> int) option \<Rightarrow> active_spell list \<Rightarrow> nat \<Rightarrow> bool" where
  "isSquareAttacked targetR targetC attackerColor b ep activeSp currentPly =
     any_square (attacks_from targetR targetC attackerColor b activeSp currentPly) all_squares"

definition has_type :: "board \<Rightarrow> string \<Rightarrow> int \<Rightarrow> int \<Rightarrow> bool" where
  "has_type b ty r c = (case cell b r c of None \<Rightarrow> False | Some p \<Rightarrow> ptype p = ty)"

definition find_king :: "board \<Rightarrow> color \<Rightarrow> (int \<times> int) option" where
  "find_king b kingColor = first_square (has_type b (kingType kingColor)) all_squares"

definition isKingInCheck ::
  "color \<Rightarrow> board \<Rightarrow> (int \<times> int) option \<Rightarrow> active_spell list \<Rightarrow> nat \<Rightarrow> bool" where
  "isKingInCheck kingColor b ep activeSp currentPly =
     (case find_king b kingColor of
        None \<Rightarrow> False
      | Some kp \<Rightarrow> isSquareAttacked (fst kp) (snd kp) (opponent kingColor) b ep activeSp currentPly)"


definition empty_at :: "board \<Rightarrow> int \<Rightarrow> int \<Rightarrow> bool" where
  "empty_at b r c = (cell b r c = None)"

definition checkCastleConditions ::
  "int \<Rightarrow> int \<Rightarrow> int \<Rightarrow> int \<Rightarrow> board \<Rightarrow> color \<Rightarrow> castling_rights \<Rightarrow> active_spell list \<Rightarrow> nat
     \<Rightarrow> (int \<times> int) option \<Rightarrow> bool" where
  "checkCastleConditions kingFromR kingFromC kingToR kingToC b pl cr activeSp currentPly ep =
     (case cell b kingFromR kingFromC of
        None \<Rightarrow> False
      | Some king \<Rightarrow>
          if hasMoved king then False
          else if isKingInCheck pl b ep activeSp currentPly then False
          else
            let opp = opponent pl in
            if kingToC > kingFromC then
              if pl = White \<and> \<not> white_K cr then False
              else if pl = Black \<and> \<not> black_k cr then False
              else (case cell b kingFromR 7 of
                      None \<Rightarrow> False
                    | Some rook \<Rightarrow>
                        if toLowerCase (ptype rook) \<noteq> ''r'' \<or> hasMoved rook then False
                        else if \<not> empty_at b kingFromR (kingFromC + 1) \<or>
                                \<not> empty_at b kingFromR (kingFromC + 2) then False
                        else if isSquareAttacked kingFromR (kingFromC + 1) opp b ep activeSp currentPly
                          then False
                        else if isSquareAttacked kingFromR (kingFromC + 2) opp b ep activeSp currentPly
                          then False
                        else True)
            else
              if pl = White \<and> \<not> white_Q cr then False
              else if pl = Black \<and> \<not> black_q cr then False
              else (case cell b kingFromR 0 of
                      None \<Rightarrow> False
                    | Some rook \<Rightarrow>
                        if toLowerCase (ptype rook) \<noteq> ''r'' \<or> hasMoved rook then False
                        else if \<not> empty_at b kingFromR (kingFromC - 1) \<or>
                                \<not> empty_at b kingFromR (kingFromC - 2) \<or>
                                \<not> empty_at b kingFromR (kingFromC - 3) then False
                        else if isSquareAttacked kingFromR (kingFromC - 1) opp b ep activeSp currentPly
                          then False
                        else if isSquareAttacked kingFromR (kingFromC - 2) opp b ep activeSp currentPly
                          then False
                        else True))"

section \<open>Move validation\<close>

text \<open>The \<^verbatim>\<open>switch\<close> of \<^verbatim>\<open>isValidMove\<close> on the lower-cased piece type: the value of \<^verbatim>\<open>valid\<close>.\<close>

definition move_geometry ::
  "piece \<Rightarrow> piece option \<Rightarrow> int \<Rightarrow> int \<Rightarrow> int \<Rightarrow> int \<Rightarrow> board \<Rightarrow> (int \<times> int) option \<Rightarrow> bool" where
  "move_geometry moving target fromR fromC toR toC b ep =
     (let t = toLowerCase (ptype moving) in
      if t = ''p'' then
        (let dir = (if pcolor moving = White then - 1 else 1) in
         if toR = fromR + dir \<and> toC = fromC \<and> target = None then True
         else if toR = fromR + 2 * dir \<and> toC = fromC \<and> \<not> hasMoved moving \<and> target = None then
           (case cell b (fromR + dir) fromC of None \<Rightarrow> True | Some mid \<Rightarrow> isJumpable mid)
         else if toR = fromR + dir \<and> \<bar>toC - fromC\<bar> = 1 \<and>
                 (case target of None \<Rightarrow> False | Some tp \<Rightarrow> pcolor tp \<noteq> pcolor moving) then True
         else if toR = fromR + dir \<and> \<bar>toC - fromC\<bar> = 1 \<and> target = None \<and> ep = Some (toR, toC) then
           (case cell b fromR toC of
              None \<Rightarrow> False
            | Some epPawn \<Rightarrow> toLowerCase (ptype epPawn) = ''p'' \<and> pcolor epPawn \<noteq> pcolor moving)
         else False)
      else if t = ''n'' then
        (let dr = \<bar>toR - fromR\<bar>; dc = \<bar>toC - fromC\<bar>
         in (dr = 2 \<and> dc = 1) \<or> (dr = 1 \<and> dc = 2))
      else if t = ''b'' then
        (if \<bar>toR - fromR\<bar> = \<bar>toC - fromC\<bar> then isPathClear fromR fromC toR toC b else False)
      else if t = ''r'' then
        (if fromR = toR \<or> fromC = toC then isPathClear fromR fromC toR toC b else False)
      else if t = ''q'' then
        (if (fromR = toR \<or> fromC = toC) \<or> \<bar>toR - fromR\<bar> = \<bar>toC - fromC\<bar>
         then isPathClear fromR fromC toR toC b else False)
      else if t = ''k'' then
        (let dr = \<bar>toR - fromR\<bar>; dc = \<bar>toC - fromC\<bar> in dr \<le> 1 \<and> dc \<le> 1)
      else False)"

text \<open>
  The scratch board of the king-safety simulation: the piece is moved, and a pawn that
  lands on the en-passant square, when that square was empty, removes the pawn beside it.
\<close>

definition simulate_move ::
  "board \<Rightarrow> int \<Rightarrow> int \<Rightarrow> int \<Rightarrow> int \<Rightarrow> (int \<times> int) option \<Rightarrow> board" where
  "simulate_move b fromR fromC toR toC ep =
     (let tmp = set_cell (set_cell b toR toC (cell b fromR fromC)) fromR fromC None
      in if (case cell b fromR fromC of None \<Rightarrow> False | Some m \<Rightarrow> toLowerCase (ptype m) = ''p'') \<and>
            ep = Some (toR, toC) \<and> cell b toR toC = None
         then set_cell tmp fromR toC None else tmp)"

definition isValidMove ::
  "int \<Rightarrow> int \<Rightarrow> int \<Rightarrow> int \<Rightarrow> board \<Rightarrow> color \<Rightarrow> (int \<times> int) option \<Rightarrow> castling_rights
     \<Rightarrow> active_spell list \<Rightarrow> nat \<Rightarrow> bool" where
  "isValidMove fromR fromC toR toC b pl ep cr activeSp currentPly =
     (case cell b fromR fromC of
        None \<Rightarrow> False
      | Some moving \<Rightarrow>
          if pcolor moving \<noteq> pl then False
          else if (if isFrozen moving then True
                   else isSquareUnderActiveFreeze fromR fromC activeSp currentPly) then False
          else if fromR = toR \<and> fromC = toC then False
          else
            let target = cell b toR toC in
            if (case target of None \<Rightarrow> False | Some tp \<Rightarrow> pcolor tp = pcolor moving) then False
            else if toLowerCase (ptype moving) = ''k'' \<and> \<bar>toC - fromC\<bar> = 2 \<and> fromR = toR then
              checkCastleConditions fromR fromC toR toC b pl cr activeSp currentPly ep
            else if \<not> move_geometry moving target fromR fromC toR toC b ep then False
            else if (case target of None \<Rightarrow> False | Some tp \<Rightarrow> toLowerCase (ptype tp) = ''k'')
              then True
            else
              let tmp = simulate_move b fromR fromC toR toC ep in
              (case find_king tmp pl of
                 None \<Rightarrow> True
               | Some kp \<Rightarrow>
                   \<not> isSquareAttacked (fst kp) (snd kp) (opponent pl) tmp None activeSp currentPly))"


definition getValidMovesForPiece :: "int \<Rightarrow> int \<Rightarrow> ('a game_snapshot_scheme) \<Rightarrow> (int \<times> int) list" where
  "getValidMovesForPiece r c s =
     filter (\<lambda>sq. isValidMove r c (fst sq) (snd sq) (board s) (currentPlayer s)
                    (enPassantTarget s) (castlingRights s) (activeSpells s) (plyCount s))
       all_squares"

definition getAttackers ::
  "int \<Rightarrow> int \<Rightarrow> color \<Rightarrow> board \<Rightarrow> (int \<times> int) option \<Rightarrow> active_spell list \<Rightarrow> nat
     \<Rightarrow> (int \<times> int) list" where
  "getAttackers targetR targetC attackerColor b ep activeSp currentPly =
     filter (\<lambda>sq. attacks_from targetR targetC attackerColor b activeSp currentPly (fst sq) (snd sq))
       all_squares"

definition spell_available :: "nat \<Rightarrow> nat \<Rightarrow> nat \<Rightarrow> bool" where
  "spell_available left lastUsed turnNo =
     (left > 0 \<and> (lastUsed = 0 \<or> turnNo \<ge> lastUsed + SPELL_COOLDOWN_TURNS))"

definition mark_jumpable :: "board \<Rightarrow> int \<Rightarrow> int \<Rightarrow> board" where
  "mark_jumpable b r c = set_cell b r c (map_option (\<lambda>p. p\<lparr>isJumpable := True\<rparr>) (cell b r c))"

text \<open>
  The last part of \<^verbatim>\<open>hasLegalMoves\<close>: with only a jump available and a single attacker
  at \<open>(ar, ac)\<close>, some piece made jumpable lets some piece of the player move onto the
  attacker's square.
\<close>

definition jump_escape ::
  "color \<Rightarrow> board \<Rightarrow> (int \<times> int) option \<Rightarrow> castling_rights \<Rightarrow> active_spell list \<Rightarrow> nat
     \<Rightarrow> int \<Rightarrow> int \<Rightarrow> bool" where
  "jump_escape playerColor b ep cr activeSp ply ar ac =
     any_square (\<lambda>jr jc.
        if cell b jr jc = None then False
        else
          let tmp = mark_jumpable b jr jc in
          any_square (\<lambda>mr mc.
             case cell tmp mr mc of
               None \<Rightarrow> False
             | Some mp \<Rightarrow>
                 if pcolor mp = playerColor
                 then isValidMove mr mc ar ac tmp playerColor ep cr activeSp ply
                 else False) all_squares) all_squares"

definition hasLegalMoves :: "color \<Rightarrow> ('a game_snapshot_scheme) \<Rightarrow> bool" where
  "hasLegalMoves playerColor s =
     (let b = board s; ep = enPassantTarget s; cr = castlingRights s;
          activeSp = activeSpells s; ply = plyCount s;
          ps = spells_of (spells s) playerColor
      in
      if any_square (\<lambda>r c.
           case cell b r c of
             None \<Rightarrow> False
           | Some p \<Rightarrow>
               if pcolor p \<noteq> playerColor then False
               else if (if isFrozen p then True else isSquareUnderActiveFreeze r c activeSp ply)
                 then False
               else any_square (\<lambda>toR toC. isValidMove r c toR toC b playerColor ep cr activeSp ply)
                      all_squares) all_squares
      then True
      else if \<not> isKingInCheck playerColor b ep activeSp ply then False
      else
        let canFreeze = spell_available (freeze ps) (freezeLastUsedTurn ps) (gameTurnNumber s);
            canJump = spell_available (jump ps) (jumpLastUsedTurn ps) (gameTurnNumber s)
        in
        if \<not> canFreeze \<and> \<not> canJump then False
        else if canFreeze then True
        else
          (case find_king b playerColor of
             None \<Rightarrow> True
           | Some kp \<Rightarrow>
               (case getAttackers (fst kp) (snd kp) (opponent playerColor) b ep activeSp ply of
                  [] \<Rightarrow> False
                | [attacker] \<Rightarrow> jump_escape playerColor b ep cr activeSp ply (fst attacker) (snd attacker)
                | _ \<Rightarrow> False)))"

section \<open>Active spells\<close>

definition has_id :: "board \<Rightarrow> piece_id \<Rightarrow> int \<Rightarrow> int \<Rightarrow> bool" where
  "has_id b i r c = (case cell b r c of None \<Rightarrow> False | Some p \<Rightarrow> pid p = i)"

definition find_square_by_id :: "board \<Rightarrow> piece_id \<Rightarrow> (int \<times> int) option" where
  "find_square_by_id b i = first_square (has_id b i) all_squares"

definition findPieceById :: "board \<Rightarrow> piece_id \<Rightarrow> piece option" where
  "findPieceById b i = (case find_square_by_id b i of None \<Rightarrow> None | Some sq \<Rightarrow> cell b (fst sq) (snd sq))"

text \<open>\<^verbatim>\<open>const p = findPieceById(ns.board, spell.targetId); if (p) p.isJumpable = false\<close>\<close>

definition clear_jumpable :: "board \<Rightarrow> piece_id \<Rightarrow> board" where
  "clear_jumpable b i =
     (case find_square_by_id b i of
        None \<Rightarrow> b
      | Some sq \<Rightarrow> set_cell b (fst sq) (snd sq)
                    (map_option (\<lambda>p. p\<lparr>isJumpable := False\<rparr>) (cell b (fst sq) (snd sq))))"

text \<open>The loop of \<^verbatim>\<open>updateActiveSpells\<close>: the board after the flags are cleared, and \<^verbatim>\<open>still\<close>.\<close>

fun update_spells_loop :: "nat \<Rightarrow> active_spell list \<Rightarrow> board \<Rightarrow> board \<times> active_spell list" where
  "update_spells_loop ply [] b = (b, [])"
| "update_spells_loop ply (sp # rest) b =
     (if ply \<ge> expiresAtPly sp then
        (case sp of
           JumpSpell i e \<Rightarrow> update_spells_loop ply rest (clear_jumpable b i)
         | FreezeSpell r c ids e \<Rightarrow> update_spells_loop ply rest b)
      else
        (let res = update_spells_loop ply rest b in (fst res, sp # snd res)))"

definition updateActiveSpells :: "game_state \<Rightarrow> game_state" where
  "updateActiveSpells s =
     (let res = update_spells_loop (plyCount s) (activeSpells s) (board s)
      in s\<lparr>board := fst res, activeSpells := snd res\<rparr>)"

section \<open>Numbers and squares as text\<close>

definition digit_char :: "nat \<Rightarrow> char" where
  "digit_char n = ''0123456789'' ! (n mod 10)"

fun show_nat :: "nat \<Rightarrow> string" where
  "show_nat n = (if n < 10 then [digit_char n] else show_nat (n div 10) @ [digit_char n])"

definition show_int :: "int \<Rightarrow> string" where
  "show_int i = (if i < 0 then CHR ''-'' # show_nat (nat (- i)) else show_nat (nat i))"

text \<open>\<^verbatim>\<open>String.fromCharCode(97 + c)\<close>, for the columns of the board the letters a to h.\<close>

definition file_char :: "int \<Rightarrow> char" where
  "file_char c = char_of (97 + c)"

definition algebraicFromCoords :: "int \<Rightarrow> int \<Rightarrow> string" where
  "algebraicFromCoords r c = file_char c # show_int (8 - r)"

text \<open>\<^verbatim>\<open>parseInt\<close> of a single character in base 10: a digit, or \<^verbatim>\<open>NaN\<close>.\<close>

definition parse_digit :: "char \<Rightarrow> int option" where
  "parse_digit ch =
     (let k = (of_char ch :: int) in if 48 \<le> k \<and> k \<le> 57 then Some (k - 48) else None)"

definition parseAlgebraicToCoords :: "string \<Rightarrow> (int \<times> int) option" where
  "parseAlgebraicToCoords alg =
     (case alg of
        [f, d] \<Rightarrow>
          (let file = of_char f - (97 :: int) in
           case parse_digit d of
             None \<Rightarrow> None
           | Some n \<Rightarrow>
               (let rank = 8 - n in
                if file < 0 \<or> file > 7 \<or> rank < 0 \<or> rank > 7 then None else Some (rank, file)))
      | _ \<Rightarrow> None)"


fun join :: "string \<Rightarrow> string list \<Rightarrow> string" where
  "join sep [] = []"
| "join sep [x] = x"
| "join sep (x # y # zs) = x @ sep @ join sep (y # zs)"

text \<open>\<^verbatim>\<open>s.split(d)\<close> for a one-character separator.\<close>

fun split_on :: "char \<Rightarrow> string \<Rightarrow> string list" where
  "split_on d [] = [[]]"
| "split_on d (ch # cs) =
     (if ch = d then [] # split_on d cs
      else (case split_on d cs of [] \<Rightarrow> [[ch]] | w # ws \<Rightarrow> (ch # w) # ws))"

definition color_name :: "color \<Rightarrow> string" where
  "color_name c = (if c = White then ''white'' else ''black'')"

definition color_Name :: "color \<Rightarrow> string" where
  "color_Name c = (if c = White then ''White'' else ''Black'')"

section \<open>Threefold-repetition state signature\<close>

definition dq :: char where
  "dq = CHR 0x22"

definition json_key :: "string \<Rightarrow> string" where
  "json_key k = dq # k @ [dq, CHR '':'']"

definition json_bool :: "bool \<Rightarrow> string" where
  "json_bool v = (if v then ''true'' else ''false'')"

definition json_castling :: "castling_rights \<Rightarrow> string" where
  "json_castling cr =
     ''{'' @ json_key ''white'' @ ''{'' @ json_key ''K'' @ json_bool (white_K cr) @ '','' @
       json_key ''Q'' @ json_bool (white_Q cr) @ ''},'' @
     json_key ''black'' @ ''{'' @ json_key ''k'' @ json_bool (black_k cr) @ '','' @
       json_key ''q'' @ json_bool (black_q cr) @ ''}}''"

definition json_square :: "(int \<times> int) option \<Rightarrow> string" where
  "json_square ep =
     (case ep of
        None \<Rightarrow> ''null''
      | Some sq \<Rightarrow> ''{'' @ json_key ''r'' @ show_int (fst sq) @ '','' @
                   json_key ''c'' @ show_int (snd sq) @ ''}'')"

definition square_sig :: "piece option \<Rightarrow> string" where
  "square_sig sq =
     (case sq of None \<Rightarrow> '' '' | Some p \<Rightarrow> ptype p @ (if isJumpable p then ''*'' else []))"

definition generateStateSignature :: "('a game_snapshot_scheme) \<Rightarrow> string" where
  "generateStateSignature s =
     (let boardStr = join ''/'' (map (\<lambda>row. concat (map square_sig row)) (board s));
          ws = white (spells s); bs = black (spells s);
          cooldowns = show_nat (jumpLastUsedTurn ws) @ '','' @ show_nat (freezeLastUsedTurn ws) @ '','' @
                      show_nat (jumpLastUsedTurn bs) @ '','' @ show_nat (freezeLastUsedTurn bs)
      in boardStr @ ''|'' @ color_name (currentPlayer s) @ ''|'' @ json_castling (castlingRights s) @
         ''|'' @ json_square (enPassantTarget s) @ ''|'' @ cooldowns)"

section \<open>Initialization\<close>

definition INITIAL_BOARD_SETUP :: "string option list list" where
  "INITIAL_BOARD_SETUP =
     [[Some ''r'', Some ''n'', Some ''b'', Some ''q'', Some ''k'', Some ''b'', Some ''n'', Some ''r''],
      [Some ''p'', Some ''p'', Some ''p'', Some ''p'', Some ''p'', Some ''p'', Some ''p'', Some ''p''],
      [None, None, None, None, None, None, None, None],
      [None, None, None, None, None, None, None, None],
      [None, None, None, None, None, None, None, None],
      [None, None, None, None, None, None, None, None],
      [Some ''P'', Some ''P'', Some ''P'', Some ''P'', Some ''P'', Some ''P'', Some ''P'', Some ''P''],
      [Some ''R'', Some ''N'', Some ''B'', Some ''Q'', Some ''K'', Some ''B'', Some ''N'', Some ''R'']]"

text \<open>
  \<^verbatim>\<open>newPieceId\<close> increments the module counter \<^verbatim>\<open>_pieceIdSeq\<close> and prints it into the id.
  The counter is passed in: \<open>init_row\<close> and \<open>init_rows\<close> return the cells with the
  counter after them.
\<close>

definition new_piece :: "string \<Rightarrow> int \<Rightarrow> int \<Rightarrow> int \<Rightarrow> piece" where
  "new_piece t r c seq =
     \<lparr>ptype = t, pcolor = (if t = toUpperCase t then White else Black),
      pid = PieceId r c seq, isFrozen = False, isJumpable = False, hasMoved = False\<rparr>"

fun init_row :: "int \<Rightarrow> int \<Rightarrow> int \<Rightarrow> string option list \<Rightarrow> piece option list \<times> int" where
  "init_row r c seq [] = ([], seq)"
| "init_row r c seq (None # ts) =
     (let res = init_row r (c + 1) seq ts in (None # fst res, snd res))"
| "init_row r c seq (Some t # ts) =
     (let res = init_row r (c + 1) (seq + 1) ts
      in (Some (new_piece t r c (seq + 1)) # fst res, snd res))"

fun init_rows :: "int \<Rightarrow> int \<Rightarrow> string option list list \<Rightarrow> board \<times> int" where
  "init_rows r seq [] = ([], seq)"
| "init_rows r seq (row # rows) =
     (let res = init_row r 0 seq row; rest = init_rows (r + 1) (snd res) rows
      in (fst res # fst rest, snd rest))"

definition createSnapshot :: "game_state \<Rightarrow> game_snapshot" where
  "createSnapshot s = game_snapshot.truncate s"

definition initial_spell_state :: spell_state where
  "initial_spell_state = \<lparr>jump = 2, freeze = 5, jumpLastUsedTurn = 0, freezeLastUsedTurn = 0\<rparr>"

definition createInitialGameState :: "int \<Rightarrow> game_state" where
  "createInitialGameState seq =
     (let state =
        \<lparr>board = fst (init_rows 0 seq INITIAL_BOARD_SETUP),
         currentPlayer = White, gameTurnNumber = 1, plyCount = 0,
         spells = \<lparr>white = initial_spell_state, black = initial_spell_state\<rparr>,
         activeSpells = [], moveLog = [], enPassantTarget = None,
         castlingRights = \<lparr>white_K = True, white_Q = True, black_k = True, black_q = True\<rparr>,
         isGameOver = False, gameEndMessage = [], awaitingPromotion = None,
         history = [], repetitionCounter = Map.empty\<rparr>;
          snap = createSnapshot state
      in state\<lparr>history := [snap], repetitionCounter := [generateStateSignature snap \<mapsto> 1]\<rparr>)"

section \<open>Move notation\<close>

definition generateMoveNotation ::
  "('a game_snapshot_scheme) \<Rightarrow> piece \<Rightarrow> int \<Rightarrow> int \<Rightarrow> int \<Rightarrow> int \<Rightarrow> piece option \<Rightarrow> bool \<Rightarrow> string" where
  "generateMoveNotation s p fromR fromC toR toC capturedPiece isEnPassant =
     (let pieceTypeUpper = toUpperCase (ptype p); toAlg = algebraicFromCoords toR toC in
      if pieceTypeUpper = ''P'' then
        (if capturedPiece \<noteq> None \<or> isEnPassant then file_char fromC # ''x'' @ toAlg else toAlg)
      else
        let competitors =
              filter (\<lambda>sq.
                 if fst sq = fromR \<and> snd sq = fromC then False
                 else (case cell (board s) (fst sq) (snd sq) of
                         None \<Rightarrow> False
                       | Some q \<Rightarrow>
                           if pcolor q = pcolor p \<and> ptype q = ptype p
                           then isValidMove (fst sq) (snd sq) toR toC (board s) (currentPlayer s)
                                  (enPassantTarget s) (castlingRights s) (activeSpells s) (plyCount s)
                           else False)) all_squares;
            fromFile = [file_char fromC];
            fromRank = show_int (8 - fromR);
            sameFile = list_ex (\<lambda>sq. snd sq = fromC) competitors;
            sameRank = list_ex (\<lambda>sq. fst sq = fromR) competitors;
            disamb = (if competitors = [] then []
                      else if sameFile \<and> sameRank then fromFile @ fromRank
                      else if sameFile then fromRank
                      else fromFile)
        in pieceTypeUpper @ disamb @ (if capturedPiece \<noteq> None then ''x'' else []) @ toAlg)"


section \<open>Apply spell\<close>

text \<open>
  A failed operation returns its error message on the left; an exception thrown by
  the runtime (a property read on \<^verbatim>\<open>null\<close> or \<^verbatim>\<open>undefined\<close>) is the message \<open>TypeError\<close>.
  \<^verbatim>\<open>applySpell\<close> reads \<^verbatim>\<open>ns.board[targetR][targetC]\<close> before it looks at the kind of spell: for
  a row outside the board \<^verbatim>\<open>ns.board[targetR]\<close> is \<^verbatim>\<open>undefined\<close> and the read throws, for a
  jump and for a freeze alike; a column outside the row reads \<^verbatim>\<open>undefined\<close>, an empty square.
\<close>

definition spell_name :: "spell_type \<Rightarrow> string" where
  "spell_name st = (if st = Jump then ''jump'' else ''freeze'')"

definition set_spells_of :: "player_spells \<Rightarrow> color \<Rightarrow> spell_state \<Rightarrow> player_spells" where
  "set_spells_of sp c ss = (if c = White then sp\<lparr>white := ss\<rparr> else sp\<lparr>black := ss\<rparr>)"

definition freeze_zone :: "int \<Rightarrow> int \<Rightarrow> (int \<times> int) list" where
  "freeze_zone targetR targetC =
     concat (map (\<lambda>dr. map (\<lambda>dc. (targetR + dr, targetC + dc)) [- 1, 0, 1]) [- 1, 0, 1])"

definition affected_piece_ids :: "board \<Rightarrow> int \<Rightarrow> int \<Rightarrow> piece_id list" where
  "affected_piece_ids b targetR targetC =
     List.map_filter (\<lambda>sq.
        if fst sq \<ge> 0 \<and> fst sq < 8 \<and> snd sq \<ge> 0 \<and> snd sq < 8
        then map_option pid (cell b (fst sq) (snd sq)) else None) (freeze_zone targetR targetC)"

definition applySpell ::
  "game_state \<Rightarrow> spell_type \<Rightarrow> int \<Rightarrow> int \<Rightarrow> string + (game_state \<times> string)" where
  "applySpell state st targetR targetC =
     (if \<not> canCastSpell state st then Inl (''Cannot cast '' @ spell_name st @ '' spell right now.'')
      else if targetR < 0 \<or> targetR \<ge> 8 then Inl ''TypeError''
      else
        let ps = spells_of (spells state) (currentPlayer state) in
        if st = Jump then
          (case cell (board state) targetR targetC of
             None \<Rightarrow> Inl ''Jump must target a piece.''
           | Some targetPiece \<Rightarrow>
               Inr (state\<lparr>spells := set_spells_of (spells state) (currentPlayer state)
                                     (ps\<lparr>jump := jump ps - 1, jumpLastUsedTurn := gameTurnNumber state\<rparr>),
                          activeSpells := activeSpells state @
                                     [JumpSpell (pid targetPiece) (plyCount state + 2)],
                          board := set_cell (board state) targetR targetC
                                     (Some (targetPiece\<lparr>isJumpable := True\<rparr>))\<rparr>,
                    ''jump@'' @ algebraicFromCoords targetR targetC))
        else
          Inr (state\<lparr>spells := set_spells_of (spells state) (currentPlayer state)
                                (ps\<lparr>freeze := freeze ps - 1, freezeLastUsedTurn := gameTurnNumber state\<rparr>),
                     activeSpells := activeSpells state @
                                [FreezeSpell targetR targetC
                                   (affected_piece_ids (board state) targetR targetC)
                                   (plyCount state + 2)]\<rparr>,
               ''freeze@'' @ algebraicFromCoords targetR targetC))"

section \<open>Finalization of a half-move\<close>

text \<open>\<^verbatim>\<open>xs[1]\<close> printed into a template string: \<^verbatim>\<open>undefined\<close> when there is no second part.\<close>

definition second_or_undefined :: "string list \<Rightarrow> string" where
  "second_or_undefined parts = (case parts of a # b # rest \<Rightarrow> b | _ \<Rightarrow> ''undefined'')"

definition first_char_or_undefined :: "string \<Rightarrow> string" where
  "first_char_or_undefined w = (case w of [] \<Rightarrow> ''undefined'' | ch # rest \<Rightarrow> [ch])"

definition compact_spell :: "string \<Rightarrow> string" where
  "compact_spell spellNotation =
     (let parts = split_on CHR ''@'' spellNotation
      in take 1 (hd parts) @ ''@'' @ second_or_undefined parts)"

definition compact_move :: "int \<Rightarrow> int \<Rightarrow> int \<Rightarrow> int \<Rightarrow> string \<Rightarrow> string" where
  "compact_move fromR fromC toR toC moveNotation =
     algebraicFromCoords fromR fromC @ ''-'' @ algebraicFromCoords toR toC @
     (if CHR ''='' \<in> set moveNotation
      then ''='' @ first_char_or_undefined (split_on CHR ''='' moveNotation ! 1) else [])"

definition king_on_board :: "board \<Rightarrow> color \<Rightarrow> bool" where
  "king_on_board b c = list_ex (list_ex (\<lambda>sq. case sq of None \<Rightarrow> False | Some p \<Rightarrow> ptype p = kingType c)) b"

text \<open>
  \<^verbatim>\<open>_finalizeMove\<close>, in the order of the source: the compact actions of the half-move, the
  ply count and the expiry of spells, the detection of the end of the game, the
  en-passant square, the move log, the turn counters, the snapshot, and the repetition
  count. A spell notation that is \<^verbatim>\<open>null\<close> or the empty string is falsy: no spell token
  and no prefix. Of the moved piece only the type is read.
\<close>

definition compact_actions :: "string option \<Rightarrow> int \<Rightarrow> int \<Rightarrow> int \<Rightarrow> int \<Rightarrow> string \<Rightarrow> string list" where
  "compact_actions spellNotation fromR fromC toR toC moveNotation =
     (case spellNotation of
        None \<Rightarrow> []
      | Some sn \<Rightarrow> if sn \<noteq> [] then [compact_spell sn] else []) @
     [compact_move fromR fromC toR toC moveNotation]"

text \<open>
  The game-end detection: whether the half-move ends the game, the end message and the
  check symbol of the notation.
\<close>

definition detect_game_end :: "game_state \<Rightarrow> color \<Rightarrow> bool \<times> string \<times> string" where
  "detect_game_end ns playerWhoMoved =
     (let opp = opponent playerWhoMoved;
          oppKingOnBoard = king_on_board (board ns) opp;
          oppInCheck = (if oppKingOnBoard
                        then isKingInCheck opp (board ns) (enPassantTarget ns) (activeSpells ns)
                               (plyCount ns)
                        else False);
          oppHasMoves = (if oppKingOnBoard then hasLegalMoves opp ns else False)
      in
      if \<not> oppKingOnBoard then (True, color_Name playerWhoMoved @ '' wins by king capture!'', ''#'')
      else if oppInCheck \<and> \<not> oppHasMoves
        then (True, color_Name playerWhoMoved @ '' wins by checkmate!'', ''#'')
      else if \<not> oppInCheck \<and> \<not> oppHasMoves then (True, ''Draw by stalemate.'', [])
      else if oppInCheck then (False, [], ''+'')
      else (False, [], []))"

text \<open>The steps between the detection of the end and the repetition count.\<close>

definition mark_game_end :: "game_state \<Rightarrow> bool \<times> string \<times> string \<Rightarrow> game_state" where
  "mark_game_end ns ending =
     ns\<lparr>isGameOver := (if fst ending then True else isGameOver ns),
        gameEndMessage := fst (snd ending)\<rparr>"

definition refresh_en_passant :: "game_state \<Rightarrow> string \<Rightarrow> int \<Rightarrow> int \<Rightarrow> int \<Rightarrow> game_state" where
  "refresh_en_passant ns movedType fromR toR fromC =
     ns\<lparr>enPassantTarget :=
          (if toLowerCase movedType = ''p'' \<and> \<bar>fromR - toR\<bar> = 2
           then Some ((fromR + toR) div 2, fromC) else None)\<rparr>"

definition full_notation :: "string option \<Rightarrow> string \<Rightarrow> string \<Rightarrow> string" where
  "full_notation spellNotation moveNotation checkSymbol =
     (case spellNotation of
        None \<Rightarrow> []
      | Some sn \<Rightarrow> if sn \<noteq> [] then sn @ '' '' else []) @ moveNotation @ checkSymbol"

definition log_move :: "game_state \<Rightarrow> color \<Rightarrow> string \<Rightarrow> string list \<Rightarrow> game_state" where
  "log_move ns playerWhoMoved notation acts =
     ns\<lparr>moveLog := moveLog ns @
          [\<lparr>turn = gameTurnNumber ns, player = playerWhoMoved, notation_str = notation,
            actions = acts, plySnapshotIndex = length (history ns)\<rparr>]\<rparr>"

definition advance_turn :: "game_state \<Rightarrow> color \<Rightarrow> game_state" where
  "advance_turn ns playerWhoMoved =
     (if \<not> isGameOver ns
      then ns\<lparr>gameTurnNumber := (if playerWhoMoved = Black then gameTurnNumber ns + 1
                                  else gameTurnNumber ns),
              currentPlayer := opponent playerWhoMoved\<rparr>
      else ns)"

definition push_snapshot :: "game_state \<Rightarrow> string \<Rightarrow> game_state \<times> game_snapshot" where
  "push_snapshot ns endMessage =
     (let snap = (createSnapshot ns)\<lparr>gameEndMessage := endMessage\<rparr>
      in (ns\<lparr>history := history ns @ [snap]\<rparr>, snap))"

text \<open>Everything up to the push of the snapshot: the state, and the snapshot pushed.\<close>

definition finalize_ply ::
  "game_state \<Rightarrow> string \<Rightarrow> string \<Rightarrow> int \<Rightarrow> int \<Rightarrow> int \<Rightarrow> int \<Rightarrow> string option
     \<Rightarrow> game_state \<times> game_snapshot" where
  "finalize_ply ns0 moveNotation movedType fromR toR fromC toC spellNotation =
     (let playerWhoMoved = currentPlayer ns0;
          compactActions = compact_actions spellNotation fromR fromC toR toC moveNotation;
          ns1 = updateActiveSpells (ns0\<lparr>plyCount := plyCount ns0 + 1\<rparr>);
          ending = detect_game_end ns1 playerWhoMoved;
          ns2 = refresh_en_passant (mark_game_end ns1 ending) movedType fromR toR fromC;
          ns3 = log_move ns2 playerWhoMoved
                  (full_notation spellNotation moveNotation (snd (snd ending))) compactActions;
          ns4 = advance_turn ns3 playerWhoMoved
      in push_snapshot ns4 (fst (snd ending)))"

text \<open>The threefold-repetition block, entered only when the game is not over.\<close>

definition count_repetition :: "game_state \<Rightarrow> game_snapshot \<Rightarrow> game_state" where
  "count_repetition ns snap =
     (if \<not> isGameOver ns then
        (let sig = generateStateSignature snap;
             n = (case repetitionCounter ns sig of None \<Rightarrow> 0 | Some k \<Rightarrow> k) + 1;
             ns' = ns\<lparr>repetitionCounter := (repetitionCounter ns)(sig \<mapsto> n)\<rparr>
         in if n \<ge> 3
            then ns'\<lparr>isGameOver := True, gameEndMessage := ''Draw by threefold repetition.''\<rparr>
            else ns')
      else ns)"

definition finalizeMove ::
  "game_state \<Rightarrow> string \<Rightarrow> string \<Rightarrow> int \<Rightarrow> int \<Rightarrow> int \<Rightarrow> int \<Rightarrow> string option \<Rightarrow> game_state" where
  "finalizeMove ns0 moveNotation movedType fromR toR fromC toC spellNotation =
     (let res = finalize_ply ns0 moveNotation movedType fromR toR fromC toC spellNotation
      in count_repetition (fst res) (snd res))"

section \<open>Apply move\<close>

text \<open>
  The result of a successful \<^verbatim>\<open>applyMove\<close> or \<^verbatim>\<open>applyPromotion\<close>: the new state and the
  flag \<^verbatim>\<open>awaitingPromotion\<close> of the result.
\<close>

type_synonym move_result = "string + (game_state \<times> bool)"

definition update_castling_rights :: "castling_rights \<Rightarrow> piece \<Rightarrow> int \<Rightarrow> int \<Rightarrow> castling_rights" where
  "update_castling_rights cr moved fromR fromC =
     (if toLowerCase (ptype moved) = ''k'' then
        (if pcolor moved = White then cr\<lparr>white_K := False, white_Q := False\<rparr>
         else cr\<lparr>black_k := False, black_q := False\<rparr>)
      else if toLowerCase (ptype moved) = ''r'' then
        (if pcolor moved = White then
           (let cr1 = (if fromR = 7 \<and> fromC = 0 then cr\<lparr>white_Q := False\<rparr> else cr)
            in if fromR = 7 \<and> fromC = 7 then cr1\<lparr>white_K := False\<rparr> else cr1)
         else
           (let cr1 = (if fromR = 0 \<and> fromC = 0 then cr\<lparr>black_q := False\<rparr> else cr)
            in if fromR = 0 \<and> fromC = 7 then cr1\<lparr>black_k := False\<rparr> else cr1))
      else cr)"

text \<open>The rook's part of castling: it goes from its corner to the square the king passes.\<close>

definition castle_rook :: "board \<Rightarrow> int \<Rightarrow> int \<Rightarrow> int \<Rightarrow> board" where
  "castle_rook b fromR fromC toC =
     (let rookFromC = (if toC > fromC then 7 else 0);
          rookToC = (if toC > fromC then toC - 1 else toC + 1)
      in case cell b fromR rookFromC of
           None \<Rightarrow> b
         | Some rook \<Rightarrow> set_cell (set_cell b fromR rookToC (Some (rook\<lparr>hasMoved := True\<rparr>)))
                          fromR rookFromC None)"

definition is_castle_move :: "piece \<Rightarrow> int \<Rightarrow> int \<Rightarrow> bool" where
  "is_castle_move moved fromC toC = (toLowerCase (ptype moved) = ''k'' \<and> \<bar>fromC - toC\<bar> = 2)"

text \<open>The en-passant test of \<^verbatim>\<open>applyMove\<close>, on the board after the rook's part of castling.\<close>

definition is_en_passant_move ::
  "board \<Rightarrow> (int \<times> int) option \<Rightarrow> piece \<Rightarrow> int \<Rightarrow> int \<Rightarrow> int \<Rightarrow> bool" where
  "is_en_passant_move b1 ep moved fromC toR toC =
     (toLowerCase (ptype moved) = ''p'' \<and> \<bar>fromC - toC\<bar> = 1 \<and> cell b1 toR toC = None \<and>
      ep = Some (toR, toC))"

text \<open>
  The board of \<^verbatim>\<open>applyMove\<close> before promotion: the rook of a castling move relocated, the
  pawn captured en passant removed, the piece moved and marked as moved.
\<close>

definition board_after_move ::
  "board \<Rightarrow> (int \<times> int) option \<Rightarrow> piece \<Rightarrow> int \<Rightarrow> int \<Rightarrow> int \<Rightarrow> int \<Rightarrow> board" where
  "board_after_move b ep movingPiece fromR fromC toR toC =
     (let b1 = (if is_castle_move movingPiece fromC toC then castle_rook b fromR fromC toC else b);
          b2 = (if is_en_passant_move b1 ep movingPiece fromC toR toC
                then set_cell b1 fromR toC None else b1)
      in set_cell (set_cell b2 toR toC (Some (movingPiece\<lparr>hasMoved := True\<rparr>))) fromR fromC None)"

text \<open>The notation of \<^verbatim>\<open>applyMove\<close> before the promotion suffix.\<close>

definition notation_of_move ::
  "game_state \<Rightarrow> piece \<Rightarrow> int \<Rightarrow> int \<Rightarrow> int \<Rightarrow> int \<Rightarrow> string" where
  "notation_of_move state movingPiece fromR fromC toR toC =
     (let b1 = (if is_castle_move movingPiece fromC toC
                then castle_rook (board state) fromR fromC toC else board state)
      in if is_en_passant_move b1 (enPassantTarget state) movingPiece fromC toR toC
         then generateMoveNotation state movingPiece fromR fromC toR toC
                (cell (board state) fromR toC) True
         else if is_castle_move movingPiece fromC toC
         then (if toC > fromC then ''O-O'' else ''O-O-O'')
         else generateMoveNotation state movingPiece fromR fromC toR toC
                (cell (board state) toR toC) False)"

definition is_promotion_move :: "piece \<Rightarrow> int \<Rightarrow> int \<Rightarrow> int \<Rightarrow> bool" where
  "is_promotion_move moved fromC toR toC =
     (\<not> is_castle_move moved fromC toC \<and> toLowerCase (ptype moved) = ''p'' \<and> (toR = 0 \<or> toR = 7))"

definition promoted_type :: "color \<Rightarrow> string \<Rightarrow> string" where
  "promoted_type c promotionPiece =
     (if c = White then toUpperCase promotionPiece else toLowerCase promotionPiece)"

definition applyMove ::
  "game_state \<Rightarrow> int \<Rightarrow> int \<Rightarrow> int \<Rightarrow> int \<Rightarrow> string option \<Rightarrow> string option \<Rightarrow> move_result" where
  "applyMove state fromR fromC toR toC spellNotation promotionPiece =
     (if \<not> isValidMove fromR fromC toR toC (board state) (currentPlayer state)
            (enPassantTarget state) (castlingRights state) (activeSpells state) (plyCount state)
      then Inl ''Invalid move.''
      else
        case cell (board state) fromR fromC of
          None \<Rightarrow> Inl ''TypeError''
        | Some movingPiece \<Rightarrow>
            let moveNotation = notation_of_move state movingPiece fromR fromC toR toC;
                moved = movingPiece\<lparr>hasMoved := True\<rparr>;
                b3 = board_after_move (board state) (enPassantTarget state) movingPiece
                       fromR fromC toR toC;
                ns = state\<lparr>board := b3,
                           castlingRights := update_castling_rights (castlingRights state) moved fromR fromC\<rparr>
            in
            if is_promotion_move moved fromC toR toC then
              (if (case promotionPiece of None \<Rightarrow> False | Some pp \<Rightarrow> pp \<noteq> []) then
                 (let pp = the promotionPiece;
                      promoted = moved\<lparr>ptype := promoted_type (pcolor moved) pp\<rparr>
                  in Inr (finalizeMove (ns\<lparr>board := set_cell b3 toR toC (Some promoted)\<rparr>)
                            (moveNotation @ ''='' @ toUpperCase pp) (ptype promoted)
                            fromR toR fromC toC spellNotation, False))
               else
                 Inr (ns\<lparr>awaitingPromotion :=
                           Some \<lparr>ap_r = toR, ap_c = toC, ap_color = pcolor moved,
                                 originalMoveNotation = moveNotation, ap_movingPiece = moved,
                                 ap_fromR = fromR, ap_fromC = fromC\<rparr>\<rparr>, True))
            else
              Inr (finalizeMove ns moveNotation (ptype moved) fromR toR fromC toC spellNotation, False))"

definition applyPromotion :: "game_state \<Rightarrow> string \<Rightarrow> string option \<Rightarrow> move_result" where
  "applyPromotion state promotionPiece spellNotation =
     (case awaitingPromotion state of
        None \<Rightarrow> Inl ''No promotion pending.''
      | Some promo \<Rightarrow>
          let pieceType = promoted_type (ap_color promo) promotionPiece
          in case cell (board state) (ap_r promo) (ap_c promo) of
               None \<Rightarrow> Inl ''TypeError''
             | Some p \<Rightarrow>
                 Inr (finalizeMove
                        (state\<lparr>board := set_cell (board state) (ap_r promo) (ap_c promo)
                                           (Some (p\<lparr>ptype := pieceType\<rparr>)),
                               awaitingPromotion := None\<rparr>)
                        (originalMoveNotation promo @ ''='' @ toUpperCase promotionPiece)
                        pieceType (ap_fromR promo) (ap_r promo) (ap_fromC promo) (ap_c promo)
                        spellNotation, False))"

section \<open>Resign\<close>

definition applyResign :: "game_state \<Rightarrow> game_state" where
  "applyResign state =
     (let pl = currentPlayer state;
          winner = (if pl = White then ''Black'' else ''White'');
          msg = color_Name pl @ '' resigned. '' @ winner @ '' wins.'';
          ns = state\<lparr>isGameOver := True, gameEndMessage := msg,
                     moveLog := moveLog state @
                       [\<lparr>turn = gameTurnNumber state, player = pl, notation_str = ''R'',
                         actions = [''R''], plySnapshotIndex = length (history state)\<rparr>]\<rparr>
      in ns\<lparr>history := history ns @ [createSnapshot ns]\<rparr>)"

section \<open>Replay of a compact action log\<close>

text \<open>
  The body of the loop of \<^verbatim>\<open>replayCompactActions\<close> for one action, on the state and the
  pending spell notation; a thrown \<^verbatim>\<open>Error\<close> is its message on the left.
\<close>

definition replay_action ::
  "game_state \<times> string option \<Rightarrow> string \<Rightarrow> string + (game_state \<times> string option)" where
  "replay_action sp action =
     (let state = fst sp; pendingSpellNotation = snd sp in
      if toUpperCase action = ''R'' then Inr (applyResign state, pendingSpellNotation)
      else if CHR ''@'' \<in> set action then
        (let parts = split_on CHR ''@'' action;
             prefix = hd parts;
             spellType = (if prefix = ''j'' \<or> prefix = ''jump'' then Jump else Freeze)
         in case parseAlgebraicToCoords (parts ! 1) of
              None \<Rightarrow> Inl (''Invalid spell action: '' @ action)
            | Some coords \<Rightarrow>
                (case applySpell state spellType (fst coords) (snd coords) of
                   Inl err \<Rightarrow> Inl (''Spell failed: '' @ err)
                 | Inr res \<Rightarrow> Inr (fst res, Some (snd res))))
      else
        (case split_on CHR ''-'' action of
           fromAlg # toAndPromo # rest \<Rightarrow>
             (let toAlg = take 2 toAndPromo in
              case (parseAlgebraicToCoords fromAlg, parseAlgebraicToCoords toAlg) of
                (Some from, Some to) \<Rightarrow>
                  (let promotionPiece =
                         (if CHR ''='' \<in> set toAndPromo
                          then Some (split_on CHR ''='' toAndPromo ! 1) else None)
                   in case applyMove state (fst from) (snd from) (fst to) (snd to)
                             pendingSpellNotation promotionPiece of
                        Inl err \<Rightarrow> Inl (''Move failed: '' @ err)
                      | Inr res \<Rightarrow>
                          if snd res then Inl (''Promotion piece missing in action: '' @ action)
                          else Inr (fst res, None))
              | _ \<Rightarrow> Inl (''Invalid move action: '' @ action))
         | _ \<Rightarrow> Inl ''TypeError''))"

fun replay_loop ::
  "game_state \<times> string option \<Rightarrow> string list \<Rightarrow> string + (game_state \<times> string option)" where
  "replay_loop sp [] = Inr sp"
| "replay_loop sp (action # rest) =
     (if isGameOver (fst sp) then Inr sp
      else (case replay_action sp action of
              Inl err \<Rightarrow> Inl err
            | Inr sp' \<Rightarrow> replay_loop sp' rest))"


definition buildCompactActionLog :: "move_log_entry list \<Rightarrow> string" where
  "buildCompactActionLog ml = join '','' (concat (map actions ml))"

section \<open>Example games\<close>

text \<open>White resigns in the initial position.\<close>

definition resigned_game :: game_state where
  "resigned_game = applyResign (createInitialGameState 0)"


text \<open>
  The initial position with White's king's bishop and king's knight taken off the board,
  so that only the castling conditions decide e1-g1; and the same with an active freeze
  centred on e1.
\<close>

definition castle_ready :: game_state where
  "castle_ready =
     (createInitialGameState 0)
       \<lparr>board := set_cell (set_cell (board (createInitialGameState 0)) 7 5 None) 7 6 None\<rparr>"

definition castle_ready_frozen :: game_state where
  "castle_ready_frozen = castle_ready\<lparr>activeSpells := [FreezeSpell 7 4 [] 2]\<rparr>"

definition empty_board :: board where
  "empty_board = replicate 8 (replicate 8 None)"

text \<open>
  White king e1 and black king e8 alone on the board, White to move, with an active
  freeze centred on e1.
\<close>

definition lone_kings_frozen :: game_state where
  "lone_kings_frozen =
     (createInitialGameState 0)
       \<lparr>board := set_cell (set_cell empty_board 7 4 (Some (new_piece ''K'' 7 4 1)))
                   0 4 (Some (new_piece ''k'' 0 4 2)),
        activeSpells := [FreezeSpell 7 4 [PieceId 7 4 1] 2]\<rparr>"


section \<open>Kinds of move\<close>




section \<open>Reachable states\<close>

text \<open>
  The states a game can be in: the initial state, and every state a successful public
  operation returns on a reachable state, for squares of the board and any other
  arguments.
\<close>

inductive reachable :: "game_state \<Rightarrow> bool" where
  initial: "reachable (createInitialGameState seq)"
| spell: "reachable S \<Longrightarrow> on_board r c \<Longrightarrow> applySpell S st r c = Inr (S', n) \<Longrightarrow> reachable S'"
| move: "reachable S \<Longrightarrow> on_board fromR fromC \<Longrightarrow> on_board toR toC \<Longrightarrow>
         applyMove S fromR fromC toR toC spellNotation promotionPiece = Inr (S', aw) \<Longrightarrow> reachable S'"
| promotion: "reachable S \<Longrightarrow> applyPromotion S promotionPiece spellNotation = Inr (S', aw) \<Longrightarrow>
         reachable S'"
| resign: "reachable S \<Longrightarrow> reachable (applyResign S)"

text \<open>Every active spell expires after the current ply.\<close>

definition spells_alive :: "game_state \<Rightarrow> bool" where
  "spells_alive S = (\<forall>sp \<in> set (activeSpells S). plyCount S < expiresAtPly sp)"

text \<open>The piece with the given id, if it is on the board, is not jumpable.\<close>

definition jump_cleared :: "board \<Rightarrow> piece_id \<Rightarrow> bool" where
  "jump_cleared b i = (case findPieceById b i of None \<Rightarrow> True | Some p \<Rightarrow> \<not> isJumpable p)"

section \<open>Pending promotions\<close>

text \<open>A state with the field \<^verbatim>\<open>awaitingPromotion\<close> blanked, in the state and in its snapshots.\<close>

definition forget_promotion :: "game_state \<Rightarrow> game_state" where
  "forget_promotion S =
     S\<lparr>awaitingPromotion := None,
       history := map (\<lambda>h. h\<lparr>awaitingPromotion := None\<rparr>) (history S)\<rparr>"




text \<open>
  White casts a jump on the pawn on e2 and plays e2-e4; Black answers e7-e5, after which
  the jump spell has expired.
\<close>

definition jump_game_1 :: game_state where
  "jump_game_1 = fst (projr (applySpell (createInitialGameState 0) Jump 6 4))"

definition jump_game_2 :: game_state where
  "jump_game_2 = fst (projr (applyMove jump_game_1 6 4 4 4 (Some ''jump@e2'') None))"

definition jump_game_3 :: game_state where
  "jump_game_3 = fst (projr (applyMove jump_game_2 1 4 3 4 None None))"

section \<open>Tokens of the compact action log\<close>

lemma split_on_nonempty: "split_on d s \<noteq> []"
  by (induction s) (auto split: list.splits)

lemma split_on_nomatch: "d \<notin> set s \<Longrightarrow> split_on d s = [s]"
  by (induction s) auto

lemma split_on_append: "d \<notin> set p \<Longrightarrow> split_on d (p @ d # rest) = p # split_on d rest"
  by (induction p) (auto split: list.splits)

lemma upper_at: "char_to_upper CHR ''@'' = CHR ''@''"
  by (simp add: char_to_upper_def lower_letters_def upper_letters_def)

lemma not_resign_if_at: "CHR ''@'' \<in> set action \<Longrightarrow> toUpperCase action \<noteq> ''R''"
proof
  assume a: "CHR ''@'' \<in> set action" and u: "toUpperCase action = ''R''"
  from u obtain ch where "action = [ch]" by (auto simp: toUpperCase_def)
  with a have "action = ''@''" by simp
  with u show False by (simp add: toUpperCase_def upper_at)
qed

lemma parse_no_at: "parseAlgebraicToCoords sq = Some rc \<Longrightarrow> CHR ''@'' \<notin> set sq"
  by (auto simp: parseAlgebraicToCoords_def parse_digit_def Let_def split: list.splits option.splits if_splits)

section \<open>What the public operations check\<close>

lemma isValidMove_source: "isValidMove fr fc tr tc b pl ep cr sp ply \<Longrightarrow> cell b fr fc \<noteq> None"
  by (auto simp: isValidMove_def split: option.splits)

lemma applyMove_error_iff:
  "isl (applyMove S fr fc tr tc sn pp) =
     (\<not> isValidMove fr fc tr tc (board S) (currentPlayer S) (enPassantTarget S)
          (castlingRights S) (activeSpells S) (plyCount S))"
  by (auto simp: applyMove_def Let_def dest: isValidMove_source split: option.splits)

lemma applySpell_error_iff:
  "isl (applySpell S st r c) =
     (\<not> canCastSpell S st \<or> r < 0 \<or> r \<ge> 8 \<or> (st = Jump \<and> cell (board S) r c = None))"
  by (auto simp: applySpell_def Let_def split: option.splits)

lemma replay_loop_over: "isGameOver S \<Longrightarrow> replay_loop (S, pending) acts = Inr (S, pending)"
  by (cases acts) auto


section \<open>Spell tokens in replay\<close>

lemma replay_action_spell:
  assumes "CHR ''@'' \<notin> set prefix" and "parseAlgebraicToCoords sq = Some (r, c)"
  shows "replay_action (S, pending) (prefix @ ''@'' @ sq) =
           (case applySpell S (if prefix = ''j'' \<or> prefix = ''jump'' then Jump else Freeze) r c of
              Inl err \<Rightarrow> Inl (''Spell failed: '' @ err)
            | Inr res \<Rightarrow> Inr (fst res, Some (snd res)))"
proof -
  let ?a = "prefix @ CHR ''@'' # sq"
  have at: "CHR ''@'' \<in> set ?a" by simp
  have nr: "toUpperCase ?a \<noteq> ''R''" using at by (rule not_resign_if_at)
  have sp: "split_on CHR ''@'' ?a = [prefix, sq]"
    using assms parse_no_at[OF assms(2)] by (simp add: split_on_append split_on_nomatch)
  have "replay_action (S, pending) ?a =
           (case applySpell S (if prefix = ''j'' \<or> prefix = ''jump'' then Jump else Freeze) r c of
              Inl err \<Rightarrow> Inl (''Spell failed: '' @ err)
            | Inr res \<Rightarrow> Inr (fst res, Some (snd res)))"
    unfolding replay_action_def Let_def fst_conv snd_conv sp
    using nr at assms(2) by (simp del: split_on.simps)
  then show ?thesis by simp
qed

lemma applySpell_freeze_ok:
  "canCastSpell S Freeze \<Longrightarrow> 0 \<le> r \<Longrightarrow> r < 8 \<Longrightarrow>
     \<exists>S'. applySpell S Freeze r c = Inr (S', ''freeze@'' @ algebraicFromCoords r c)"
  by (simp add: applySpell_def Let_def)

lemma parse_on_board: "parseAlgebraicToCoords s = Some rc \<Longrightarrow> on_board (fst rc) (snd rc)"
  by (auto simp: parseAlgebraicToCoords_def on_board_def Let_def
           split: list.splits option.splits if_splits)

text \<open>
  Claim C9. In replay, a token \<open>prefix@square\<close> whose prefix is neither \<open>j\<close> nor \<open>jump\<close>
  is a freeze cast at that square, whatever the prefix is: the result of the token is the
  result of \<^verbatim>\<open>applySpell\<close> for a freeze there, and it succeeds whenever a freeze can be
  cast. Only the square is parsed; the prefix is never validated.
\<close>

theorem replay_unknown_prefix_is_freeze:
  assumes "CHR ''@'' \<notin> set prefix" and "prefix \<noteq> ''j''" and "prefix \<noteq> ''jump''"
    and "parseAlgebraicToCoords sq = Some (r, c)"
  shows "replay_action (S, pending) (prefix @ ''@'' @ sq) =
           (case applySpell S Freeze r c of
              Inl err \<Rightarrow> Inl (''Spell failed: '' @ err)
            | Inr res \<Rightarrow> Inr (fst res, Some (snd res)))
         \<and> (canCastSpell S Freeze \<longrightarrow>
              (\<exists>S'. replay_action (S, pending) (prefix @ ''@'' @ sq) =
                      Inr (S', Some (''freeze@'' @ algebraicFromCoords r c))))"
proof -
  have eq: "replay_action (S, pending) (prefix @ ''@'' @ sq) =
           (case applySpell S Freeze r c of
              Inl err \<Rightarrow> Inl (''Spell failed: '' @ err)
            | Inr res \<Rightarrow> Inr (fst res, Some (snd res)))"
    using replay_action_spell[OF assms(1) assms(4), of S pending] assms(2,3) by simp
  moreover have "canCastSpell S Freeze \<longrightarrow>
              (\<exists>S'. replay_action (S, pending) (prefix @ ''@'' @ sq) =
                      Inr (S', Some (''freeze@'' @ algebraicFromCoords r c)))"
  proof
    assume "canCastSpell S Freeze"
    moreover have "0 \<le> r \<and> r < 8"
      using parse_on_board[OF assms(4)] by (simp add: on_board_def)
    ultimately obtain S' where "applySpell S Freeze r c = Inr (S', ''freeze@'' @ algebraicFromCoords r c)"
      using applySpell_freeze_ok by blast
    then show "\<exists>S'. replay_action (S, pending) (prefix @ ''@'' @ sq) =
                      Inr (S', Some (''freeze@'' @ algebraicFromCoords r c))"
      using eq by simp
  qed
  ultimately show ?thesis by blast
qed

lemma parse_e4: "parseAlgebraicToCoords ''e4'' = Some (4, 4)"
  by code_simp

lemma can_freeze_initial: "canCastSpell (createInitialGameState 0) Freeze"
  by code_simp

theorem replay_unknown_prefix_is_freeze_witness:
  "CHR ''@'' \<notin> set ''x'' \<and> ''x'' \<noteq> ''j'' \<and> ''x'' \<noteq> ''jump'' \<and>
   parseAlgebraicToCoords ''e4'' = Some (4, 4) \<and> canCastSpell (createInitialGameState 0) Freeze \<and>
   (\<exists>S'. replay_action (createInitialGameState 0, None) ''x@e4'' = Inr (S', Some ''freeze@e4''))"
proof -
  have a: "CHR ''@'' \<notin> set ''x''" and b: "''x'' \<noteq> ''j''" and c: "''x'' \<noteq> ''jump''" by simp_all
  have alg: "algebraicFromCoords 4 4 = ''e4''" by code_simp
  from replay_unknown_prefix_is_freeze[OF a b c parse_e4, of "createInitialGameState 0" None]
  have "canCastSpell (createInitialGameState 0) Freeze \<longrightarrow>
        (\<exists>S'. replay_action (createInitialGameState 0, None) (''x'' @ ''@'' @ ''e4'') =
               Inr (S', Some (''freeze@'' @ algebraicFromCoords 4 4)))"
    by (rule conjunct2)
  with can_freeze_initial
  have "\<exists>S'. replay_action (createInitialGameState 0, None) ''x@e4'' = Inr (S', Some ''freeze@e4'')"
    by (simp add: alg)
  with a b c parse_e4 can_freeze_initial show ?thesis by blast
qed

section \<open>Actions on a finished game\<close>

lemma resigned_game_over: "isGameOver resigned_game"
  by (simp add: resigned_game_def applyResign_def Let_def)

lemma resigned_game_e4:
  "isValidMove 6 4 4 4 (board resigned_game) (currentPlayer resigned_game)
     (enPassantTarget resigned_game) (castlingRights resigned_game) (activeSpells resigned_game)
     (plyCount resigned_game)"
  by code_simp

lemma resigned_game_freeze: "canCastSpell resigned_game Freeze"
  by code_simp

text \<open>
  Claim C3 as stated fails: after White has resigned in the initial position the game
  is over, and yet \<^verbatim>\<open>applyMove\<close> accepts e2-e4 and \<^verbatim>\<open>applySpell\<close> accepts a freeze on e4.
\<close>

theorem game_over_actions_accepted_counterexample:
  "isGameOver resigned_game \<and>
   \<not> isl (applyMove resigned_game 6 4 4 4 None None) \<and>
   \<not> isl (applySpell resigned_game Freeze 4 4)"
  using resigned_game_over resigned_game_e4 resigned_game_freeze
  by (simp add: applyMove_error_iff applySpell_error_iff)

text \<open>
  Claim C3, amended. \<^verbatim>\<open>applyMove\<close> and \<^verbatim>\<open>applySpell\<close> do not read \<^verbatim>\<open>isGameOver\<close>: on a finished
  game \<^verbatim>\<open>applyMove\<close>, called with two squares of the board, returns an error exactly when
  \<^verbatim>\<open>isValidMove\<close> rejects the move, and \<^verbatim>\<open>applySpell\<close> fails exactly when the spell cannot be
  cast, or the target row is outside the board (the read of the target square throws), or
  a jump targets an empty square. Actions after the end of the game are dropped by the
  replay loop, which returns a finished state unchanged whatever actions remain.
\<close>

theorem game_over_not_checked:
  assumes "isGameOver S"
  shows "(on_board fromR fromC \<and> on_board toR toC \<longrightarrow>
            isl (applyMove S fromR fromC toR toC spellNotation promotionPiece) =
              (\<not> isValidMove fromR fromC toR toC (board S) (currentPlayer S) (enPassantTarget S)
                   (castlingRights S) (activeSpells S) (plyCount S)))
         \<and> isl (applySpell S st r c) =
             (\<not> canCastSpell S st \<or> r < 0 \<or> r \<ge> 8 \<or> (st = Jump \<and> cell (board S) r c = None))
         \<and> replay_loop (S, pending) acts = Inr (S, pending)"
  using assms by (simp add: applyMove_error_iff applySpell_error_iff replay_loop_over)

theorem game_over_not_checked_witness:
  "isGameOver resigned_game \<and> on_board 6 4 \<and> on_board 4 4 \<and>
   \<not> isl (applyMove resigned_game 6 4 4 4 None None) \<and>
   \<not> isl (applySpell resigned_game Freeze 4 4) \<and>
   replay_loop (resigned_game, None) [''e2-e4''] = Inr (resigned_game, None)"
  using game_over_not_checked[OF resigned_game_over, of 6 4 4 4 None None Freeze 4 4 None "[''e2-e4'']"]
    resigned_game_over resigned_game_e4 resigned_game_freeze
  by (simp add: on_board_def)

section \<open>Two spell tokens in a row\<close>


lemma spells_of_set_spells_of [simp]: "spells_of (set_spells_of sp c ss) c = ss"
  by (simp add: spells_of_def set_spells_of_def)









section \<open>Scans of the board\<close>

lemma range8: "set [0, 1, 2, 3, 4, 5, 6, 7 :: int] = {0..7}"
  by auto

lemma in_all_squares: "(r, c) \<in> set all_squares \<longleftrightarrow> on_board r c"
  unfolding all_squares_def set_concat set_map range8 on_board_def by auto

lemma any_square_iff: "any_square P sqs \<longleftrightarrow> (\<exists>sq \<in> set sqs. P (fst sq) (snd sq))"
  by (induction sqs) auto

lemma any_square_all: "any_square P all_squares \<longleftrightarrow> (\<exists>r c. on_board r c \<and> P r c)"
proof -
  have "(\<exists>sq \<in> set all_squares. P (fst sq) (snd sq)) \<longleftrightarrow> (\<exists>r c. (r, c) \<in> set all_squares \<and> P r c)"
    by force
  then show ?thesis by (simp add: any_square_iff in_all_squares)
qed

lemma first_square_Some:
  "first_square P sqs = Some sq \<Longrightarrow> sq \<in> set sqs \<and> P (fst sq) (snd sq)"
  by (induction sqs) (auto split: if_splits)

lemma first_square_None: "first_square P sqs = None \<longleftrightarrow> (\<forall>sq \<in> set sqs. \<not> P (fst sq) (snd sq))"
  by (induction sqs) auto

lemma king_attacks_adjacent:
  assumes "cell b r c = Some k" and "toLowerCase (ptype k) = ''k''" and "pcolor k = col"
    and "\<bar>tr - r\<bar> \<le> 1" and "\<bar>tc - c\<bar> \<le> 1"
  shows "isSquareAttacked tr tc col b ep sp ply"
proof -
  have ob: "on_board r c" using assms(1) by (auto simp: cell_def on_board_def split: if_splits)
  have "attacks_from tr tc col b sp ply r c"
    using assms by (simp add: attacks_from_def Let_def)
  with ob show ?thesis unfolding isSquareAttacked_def any_square_all by blast
qed

lemma frozen_cannot_move:
  "isSquareUnderActiveFreeze fr fc sp ply \<Longrightarrow> \<not> isValidMove fr fc tr tc b pl ep cr sp ply"
  by (simp add: isValidMove_def split: option.splits)

section \<open>Freeze and the king\<close>

lemma no_moves_when_all_frozen:
  assumes fr: "\<forall>r c p. cell (board s) r c = Some p \<longrightarrow> pcolor p = col \<longrightarrow>
                 isSquareUnderActiveFreeze r c (activeSpells s) (plyCount s)"
    and nc: "\<not> isKingInCheck col (board s) (enPassantTarget s) (activeSpells s) (plyCount s)"
  shows "\<not> hasLegalMoves col s"
proof -
  have "\<not> any_square (\<lambda>r c.
           case cell (board s) r c of
             None \<Rightarrow> False
           | Some p \<Rightarrow>
               if pcolor p \<noteq> col then False
               else if (if isFrozen p then True
                        else isSquareUnderActiveFreeze r c (activeSpells s) (plyCount s))
                 then False
               else any_square (\<lambda>toR toC. isValidMove r c toR toC (board s) col (enPassantTarget s)
                      (castlingRights s) (activeSpells s) (plyCount s))
                      all_squares) all_squares"
    using fr by (auto simp: any_square_iff split: option.splits)
  with nc show ?thesis by (simp add: hasLegalMoves_def Let_def)
qed

lemma cell_all_squares:
  "(\<forall>r c p. cell b r c = Some p \<longrightarrow> Q r c p) \<longleftrightarrow>
   list_all (\<lambda>sq. case cell b (fst sq) (snd sq) of None \<Rightarrow> True | Some p \<Rightarrow> Q (fst sq) (snd sq) p)
     all_squares"
proof -
  have ob: "cell b r c = Some p \<Longrightarrow> (r, c) \<in> set all_squares" for r c p
    by (auto simp: in_all_squares cell_def on_board_def split: if_splits)
  show ?thesis
    unfolding list_all_iff using ob by (force split: option.splits)
qed

lemma lone_kings_all_frozen:
  "\<forall>r c p. cell (board lone_kings_frozen) r c = Some p \<longrightarrow> pcolor p = White \<longrightarrow>
     isSquareUnderActiveFreeze r c (activeSpells lone_kings_frozen) (plyCount lone_kings_frozen)"
  unfolding cell_all_squares by code_simp

lemma lone_kings_facts:
  "cell (board lone_kings_frozen) 7 4 = Some (new_piece ''K'' 7 4 1)"
  "toLowerCase (ptype (new_piece ''K'' 7 4 1)) = ''k''"
  "pcolor (new_piece ''K'' 7 4 1) = White"
  "isSquareUnderActiveFreeze 7 4 (activeSpells lone_kings_frozen) (plyCount lone_kings_frozen)"
  "\<not> isKingInCheck White (board lone_kings_frozen) (enPassantTarget lone_kings_frozen)
       (activeSpells lone_kings_frozen) (plyCount lone_kings_frozen)"
  by code_simp+

text \<open>
  Claim C2 as stated fails for movement. With White's king on e1 inside an active freeze
  zone, \<^verbatim>\<open>isValidMove\<close> rejects e1-e2, which it accepts on the same board without the
  freeze, and \<^verbatim>\<open>hasLegalMoves\<close> finds no move for White, which it does without the freeze.
\<close>

theorem king_exempt_from_freeze_counterexample:
  "cell (board lone_kings_frozen) 7 4 = Some (new_piece ''K'' 7 4 1) \<and>
   isSquareUnderActiveFreeze 7 4 (activeSpells lone_kings_frozen) (plyCount lone_kings_frozen) \<and>
   isValidMove 7 4 6 4 (board lone_kings_frozen) White (enPassantTarget lone_kings_frozen)
     (castlingRights lone_kings_frozen) [] (plyCount lone_kings_frozen) \<and>
   \<not> isValidMove 7 4 6 4 (board lone_kings_frozen) White (enPassantTarget lone_kings_frozen)
     (castlingRights lone_kings_frozen) (activeSpells lone_kings_frozen) (plyCount lone_kings_frozen) \<and>
   \<not> hasLegalMoves White lone_kings_frozen \<and>
   hasLegalMoves White (lone_kings_frozen\<lparr>activeSpells := []\<rparr>)"
  by code_simp

text \<open>
  Claim C2, amended. A king is exempt from freeze for attack only. A king standing in
  an active freeze zone still attacks every adjacent square (\<^verbatim>\<open>isSquareAttacked\<close>, hence
  \<^verbatim>\<open>isKingInCheck\<close>). For movement it is frozen like any other piece: \<^verbatim>\<open>isValidMove\<close>
  rejects every move from a square in an active freeze zone, whatever stands there, and
  a player who is not in check and whose pieces, king included, all stand in active
  freeze zones has no legal move for \<^verbatim>\<open>hasLegalMoves\<close>.
\<close>

theorem king_frozen_for_movement_only:
  "(cell b r c = Some k \<longrightarrow> toLowerCase (ptype k) = ''k'' \<longrightarrow> pcolor k = col \<longrightarrow>
      \<bar>tr - r\<bar> \<le> 1 \<longrightarrow> \<bar>tc - c\<bar> \<le> 1 \<longrightarrow> isSquareUnderActiveFreeze r c sp ply \<longrightarrow>
      isSquareAttacked tr tc col b ep sp ply) \<and>
   (isSquareUnderActiveFreeze fromR fromC sp ply \<longrightarrow>
      \<not> isValidMove fromR fromC toR toC b pl ep cr sp ply) \<and>
   ((\<forall>r c p. cell (board s) r c = Some p \<longrightarrow> pcolor p = pl' \<longrightarrow>
        isSquareUnderActiveFreeze r c (activeSpells s) (plyCount s)) \<longrightarrow>
    \<not> isKingInCheck pl' (board s) (enPassantTarget s) (activeSpells s) (plyCount s) \<longrightarrow>
    \<not> hasLegalMoves pl' s)"
proof (intro conjI impI)
  assume "cell b r c = Some k" and "toLowerCase (ptype k) = ''k''" and "pcolor k = col"
    and "\<bar>tr - r\<bar> \<le> 1" and "\<bar>tc - c\<bar> \<le> 1"
  then show "isSquareAttacked tr tc col b ep sp ply" by (rule king_attacks_adjacent)
next
  assume "isSquareUnderActiveFreeze fromR fromC sp ply"
  then show "\<not> isValidMove fromR fromC toR toC b pl ep cr sp ply" by (rule frozen_cannot_move)
next
  assume "\<forall>r c p. cell (board s) r c = Some p \<longrightarrow> pcolor p = pl' \<longrightarrow>
        isSquareUnderActiveFreeze r c (activeSpells s) (plyCount s)"
    and "\<not> isKingInCheck pl' (board s) (enPassantTarget s) (activeSpells s) (plyCount s)"
  then show "\<not> hasLegalMoves pl' s" by (rule no_moves_when_all_frozen)
qed

theorem king_frozen_for_movement_only_witness:
  "cell (board lone_kings_frozen) 7 4 = Some (new_piece ''K'' 7 4 1) \<and>
   toLowerCase (ptype (new_piece ''K'' 7 4 1)) = ''k'' \<and>
   pcolor (new_piece ''K'' 7 4 1) = White \<and> \<bar>6 - 7 :: int\<bar> \<le> 1 \<and> \<bar>4 - 4 :: int\<bar> \<le> 1 \<and>
   isSquareUnderActiveFreeze 7 4 (activeSpells lone_kings_frozen) (plyCount lone_kings_frozen) \<and>
   \<not> isKingInCheck White (board lone_kings_frozen) (enPassantTarget lone_kings_frozen)
       (activeSpells lone_kings_frozen) (plyCount lone_kings_frozen) \<and>
   isSquareAttacked 6 4 White (board lone_kings_frozen) None (activeSpells lone_kings_frozen)
     (plyCount lone_kings_frozen) \<and>
   \<not> isValidMove 7 4 6 4 (board lone_kings_frozen) White None (castlingRights lone_kings_frozen)
       (activeSpells lone_kings_frozen) (plyCount lone_kings_frozen) \<and>
   \<not> hasLegalMoves White lone_kings_frozen"
  using king_frozen_for_movement_only[where b = "board lone_kings_frozen" and r = 7 and c = 4
      and k = "new_piece ''K'' 7 4 1" and col = White and tr = 6 and tc = 4
      and sp = "activeSpells lone_kings_frozen" and ply = "plyCount lone_kings_frozen"
      and ep = None and fromR = 7 and fromC = 4 and toR = 6 and toC = 4 and pl = White
      and cr = "castlingRights lone_kings_frozen" and s = lone_kings_frozen and pl' = White]
    lone_kings_facts lone_kings_all_frozen
  by simp

section \<open>Castling\<close>

text \<open>
  Claim C7 as stated fails: with the king and the rook unmoved, the right set, the king
  not in check, f1 and g1 empty and not attacked, \<^verbatim>\<open>isValidMove\<close> still rejects e1-g1 when
  the king stands in an active freeze zone.
\<close>

theorem castling_freeze_counterexample:
  "map_option (\<lambda>p. (toLowerCase (ptype p), pcolor p, hasMoved p)) (cell (board castle_ready_frozen) 7 4)
     = Some (''k'', White, False) \<and>
   map_option (\<lambda>p. (toLowerCase (ptype p), hasMoved p)) (cell (board castle_ready_frozen) 7 7)
     = Some (''r'', False) \<and>
   white_K (castlingRights castle_ready_frozen) \<and>
   \<not> isKingInCheck White (board castle_ready_frozen) None (activeSpells castle_ready_frozen) 0 \<and>
   cell (board castle_ready_frozen) 7 5 = None \<and> cell (board castle_ready_frozen) 7 6 = None \<and>
   \<not> isSquareAttacked 7 5 Black (board castle_ready_frozen) None (activeSpells castle_ready_frozen) 0 \<and>
   \<not> isSquareAttacked 7 6 Black (board castle_ready_frozen) None (activeSpells castle_ready_frozen) 0 \<and>
   currentPlayer castle_ready_frozen = White \<and> plyCount castle_ready_frozen = 0 \<and>
   enPassantTarget castle_ready_frozen = None \<and>
   \<not> isValidMove 7 4 7 6 (board castle_ready_frozen) White None (castlingRights castle_ready_frozen)
       (activeSpells castle_ready_frozen) 0"
  by code_simp

text \<open>
  Claim C7, amended. For a king on \<open>(fromR, fromC)\<close> and a target two files away on the
  same rank, \<^verbatim>\<open>isValidMove\<close> accepts the move exactly when: the king belongs to the player
  to move; it is not frozen (neither flagged \<^verbatim>\<open>isFrozen\<close> nor inside an active freeze
  zone); it has not moved; the player is not in check; the castling right of that side
  is set; the corner square of the king's rank on that side holds a rook that has not
  moved; the two squares next to the king on the kingside, the three on the queenside,
  are empty; and the two squares the king crosses and reaches are not attacked by the
  opponent. The third square on the queenside (the b-file for a king on e) must be
  empty and is not tested for attack.
\<close>

theorem castling_accepted_iff:
  assumes "cell b fromR fromC = Some k" and "toLowerCase (ptype k) = ''k''"
    and "\<bar>toC - fromC\<bar> = 2"
  shows "isValidMove fromR fromC fromR toC b pl ep cr sp ply \<longleftrightarrow>
     pcolor k = pl \<and> \<not> isFrozen k \<and> \<not> isSquareUnderActiveFreeze fromR fromC sp ply \<and>
     \<not> hasMoved k \<and> \<not> isKingInCheck pl b ep sp ply \<and>
     (if toC > fromC then
        (if pl = White then white_K cr else black_k cr) \<and>
        (\<exists>rook. cell b fromR 7 = Some rook \<and> toLowerCase (ptype rook) = ''r'' \<and> \<not> hasMoved rook) \<and>
        cell b fromR (fromC + 1) = None \<and> cell b fromR (fromC + 2) = None \<and>
        \<not> isSquareAttacked fromR (fromC + 1) (opponent pl) b ep sp ply \<and>
        \<not> isSquareAttacked fromR (fromC + 2) (opponent pl) b ep sp ply
      else
        (if pl = White then white_Q cr else black_q cr) \<and>
        (\<exists>rook. cell b fromR 0 = Some rook \<and> toLowerCase (ptype rook) = ''r'' \<and> \<not> hasMoved rook) \<and>
        cell b fromR (fromC - 1) = None \<and> cell b fromR (fromC - 2) = None \<and>
        cell b fromR (fromC - 3) = None \<and>
        \<not> isSquareAttacked fromR (fromC - 1) (opponent pl) b ep sp ply \<and>
        \<not> isSquareAttacked fromR (fromC - 2) (opponent pl) b ep sp ply)"
proof (cases "toC > fromC")
  case True
  with assms(3) have toC: "toC = fromC + 2" by arith
  show ?thesis
    using assms(1,2) True unfolding toC
    by (cases pl) (auto simp: isValidMove_def checkCastleConditions_def empty_at_def Let_def
          split: option.splits)
next
  case False
  with assms(3) have toC: "toC = fromC - 2" by arith
  show ?thesis
    using assms(1,2) False unfolding toC
    by (cases pl) (auto simp: isValidMove_def checkCastleConditions_def empty_at_def Let_def
          split: option.splits)
qed

lemma castle_ready_facts:
  "cell (board castle_ready) 7 4 = Some (new_piece ''K'' 7 4 29)"
  "toLowerCase (ptype (new_piece ''K'' 7 4 29)) = ''k''"
  "isValidMove 7 4 7 6 (board castle_ready) White None (castlingRights castle_ready) [] 0"
  by code_simp+

theorem castling_accepted_iff_witness:
  "cell (board castle_ready) 7 4 = Some (new_piece ''K'' 7 4 29) \<and>
   toLowerCase (ptype (new_piece ''K'' 7 4 29)) = ''k'' \<and> \<bar>6 - 4 :: int\<bar> = 2 \<and>
   isValidMove 7 4 7 6 (board castle_ready) White None (castlingRights castle_ready) [] 0 \<and>
   \<not> isKingInCheck White (board castle_ready) None [] 0 \<and>
   \<not> isSquareAttacked 7 6 Black (board castle_ready) None [] 0"
proof -
  have d: "\<bar>6 - 4 :: int\<bar> = 2" by simp
  from castling_accepted_iff[OF castle_ready_facts(1,2) d, of White None "castlingRights castle_ready" "[]" 0]
    castle_ready_facts(3)
  have "\<not> isKingInCheck White (board castle_ready) None [] 0 \<and>
        \<not> isSquareAttacked 7 6 Black (board castle_ready) None [] 0"
    by (simp add: opponent_def)
  with castle_ready_facts d show ?thesis by simp
qed

section \<open>King safety of accepted moves\<close>










section \<open>Lifetime of spells\<close>

lemma wf_board_set_cell: "wf_board b \<Longrightarrow> wf_board (set_cell b r c v)"
proof (cases "nat r < length b")
  case True
  assume "wf_board b"
  with True show ?thesis
    by (auto simp: wf_board_def set_cell_def list_all_length nth_list_update)
next
  case False
  assume "wf_board b"
  with False show ?thesis by (simp add: set_cell_def list_update_beyond)
qed

lemma cell_set_cell:
  "wf_board b \<Longrightarrow> on_board r c \<Longrightarrow>
     cell (set_cell b r c v) r' c' = (if r' = r \<and> c' = c then v else cell b r' c')"
  by (auto simp: wf_board_def cell_def set_cell_def on_board_def list_all_length nth_list_update)

lemma update_spells_loop_alive:
  "sp \<in> set (snd (update_spells_loop ply sps b)) \<Longrightarrow> ply < expiresAtPly sp \<and> sp \<in> set sps"
  by (induction sps arbitrary: b) (auto simp: Let_def split: if_splits active_spell.splits)

lemma step_fields [simp]:
  "plyCount (mark_game_end ns ending) = plyCount ns"
  "activeSpells (mark_game_end ns ending) = activeSpells ns"
  "board (mark_game_end ns ending) = board ns"
  "plyCount (refresh_en_passant ns mt fromR toR fromC) = plyCount ns"
  "activeSpells (refresh_en_passant ns mt fromR toR fromC) = activeSpells ns"
  "board (refresh_en_passant ns mt fromR toR fromC) = board ns"
  "plyCount (log_move ns pl notation acts) = plyCount ns"
  "activeSpells (log_move ns pl notation acts) = activeSpells ns"
  "board (log_move ns pl notation acts) = board ns"
  "plyCount (advance_turn ns pl) = plyCount ns"
  "activeSpells (advance_turn ns pl) = activeSpells ns"
  "board (advance_turn ns pl) = board ns"
  "plyCount (fst (push_snapshot ns msg)) = plyCount ns"
  "activeSpells (fst (push_snapshot ns msg)) = activeSpells ns"
  "board (fst (push_snapshot ns msg)) = board ns"
  by (simp_all add: mark_game_end_def refresh_en_passant_def log_move_def advance_turn_def
        push_snapshot_def Let_def)

lemma finalize_ply_fields:
  "plyCount (fst (finalize_ply ns0 mn mt fromR toR fromC toC sn)) = plyCount ns0 + 1"
  "activeSpells (fst (finalize_ply ns0 mn mt fromR toR fromC toC sn)) =
     snd (update_spells_loop (plyCount ns0 + 1) (activeSpells ns0) (board ns0))"
  "board (fst (finalize_ply ns0 mn mt fromR toR fromC toC sn)) =
     fst (update_spells_loop (plyCount ns0 + 1) (activeSpells ns0) (board ns0))"
  by (simp_all add: finalize_ply_def Let_def updateActiveSpells_def)

lemma count_repetition_fields:
  "plyCount (count_repetition ns snap) = plyCount ns"
  "activeSpells (count_repetition ns snap) = activeSpells ns"
  "board (count_repetition ns snap) = board ns"
  by (simp_all add: count_repetition_def Let_def)

lemma finalizeMove_fields:
  "plyCount (finalizeMove ns0 mn mt fromR toR fromC toC sn) = plyCount ns0 + 1"
  "activeSpells (finalizeMove ns0 mn mt fromR toR fromC toC sn) =
     snd (update_spells_loop (plyCount ns0 + 1) (activeSpells ns0) (board ns0))"
  "board (finalizeMove ns0 mn mt fromR toR fromC toC sn) =
     fst (update_spells_loop (plyCount ns0 + 1) (activeSpells ns0) (board ns0))"
  by (simp_all add: finalizeMove_def Let_def count_repetition_fields finalize_ply_fields)

lemma spells_alive_finalizeMove: "spells_alive (finalizeMove ns0 mn mt fromR toR fromC toC sn)"
  by (auto simp: spells_alive_def finalizeMove_fields dest: update_spells_loop_alive)

lemma spells_alive_applySpell:
  "spells_alive S \<Longrightarrow> applySpell S st r c = Inr (S', n) \<Longrightarrow> spells_alive S'"
  by (auto simp: spells_alive_def applySpell_def Let_def split: if_splits option.splits)

lemma spells_alive_applyMove:
  "spells_alive S \<Longrightarrow> applyMove S fromR fromC toR toC sn pp = Inr (S', aw) \<Longrightarrow> spells_alive S'"
  by (auto simp: applyMove_def Let_def spells_alive_finalizeMove split: if_splits option.splits)
     (auto simp: spells_alive_def)

lemma spells_alive_applyPromotion:
  "applyPromotion S pp sn = Inr (S', aw) \<Longrightarrow> spells_alive S'"
  by (auto simp: applyPromotion_def Let_def spells_alive_finalizeMove split: option.splits)

lemma spells_alive_applyResign: "spells_alive S \<Longrightarrow> spells_alive (applyResign S)"
  by (simp add: spells_alive_def applyResign_def Let_def)

lemma spells_alive_initial: "spells_alive (createInitialGameState seq)"
  by (simp add: spells_alive_def createInitialGameState_def Let_def)

lemma reachable_spells_alive: "reachable S \<Longrightarrow> spells_alive S"
  by (induction rule: reachable.induct)
     (auto intro: spells_alive_initial spells_alive_applySpell spells_alive_applyMove
        spells_alive_applyPromotion spells_alive_applyResign)

lemma first_square_cong:
  "(\<And>sq. sq \<in> set sqs \<Longrightarrow> P (fst sq) (snd sq) = Q (fst sq) (snd sq)) \<Longrightarrow>
     first_square P sqs = first_square Q sqs"
  by (induction sqs) auto

lemma find_square_by_id_Some:
  "find_square_by_id b i = Some sq \<Longrightarrow> on_board (fst sq) (snd sq) \<and> has_id b i (fst sq) (snd sq)"
  unfolding find_square_by_id_def
  by (drule first_square_Some) (cases sq, simp add: in_all_squares)

lemma has_id_clear_jumpable:
  assumes "wf_board b"
  shows "has_id (clear_jumpable b j) i r c = has_id b i r c"
proof (cases "find_square_by_id b j")
  case None
  then show ?thesis by (simp add: clear_jumpable_def)
next
  case (Some sq)
  then have ob: "on_board (fst sq) (snd sq)" by (simp add: find_square_by_id_Some)
  show ?thesis
    using Some by (auto simp: clear_jumpable_def has_id_def cell_set_cell[OF assms ob]
          split: option.splits)
qed

lemma find_square_clear_jumpable:
  "wf_board b \<Longrightarrow> find_square_by_id (clear_jumpable b j) i = find_square_by_id b i"
  unfolding find_square_by_id_def by (rule first_square_cong) (simp add: has_id_clear_jumpable)

lemma wf_board_clear_jumpable: "wf_board b \<Longrightarrow> wf_board (clear_jumpable b j)"
  by (simp add: clear_jumpable_def wf_board_set_cell split: option.splits)

lemma cell_clear_jumpable:
  assumes "wf_board b"
  shows "cell (clear_jumpable b j) r c =
           (if find_square_by_id b j = Some (r, c)
            then map_option (\<lambda>p. p\<lparr>isJumpable := False\<rparr>) (cell b r c) else cell b r c)"
proof (cases "find_square_by_id b j")
  case None
  then show ?thesis by (simp add: clear_jumpable_def)
next
  case (Some sq)
  obtain a ba where sq: "sq = (a, ba)" by (cases sq)
  from Some sq have ob: "on_board a ba" using find_square_by_id_Some by fastforce
  show ?thesis
    using Some sq by (auto simp: clear_jumpable_def cell_set_cell[OF assms ob])
qed

lemma findPieceById_clear_jumpable:
  assumes "wf_board b"
  shows "findPieceById (clear_jumpable b j) i =
           map_option (\<lambda>p. if i = j then p\<lparr>isJumpable := False\<rparr> else p) (findPieceById b i)"
proof (cases "find_square_by_id b i")
  case None
  then show ?thesis by (simp add: findPieceById_def find_square_clear_jumpable[OF assms])
next
  case (Some sq)
  note si = find_square_by_id_Some[OF Some]
  have fp: "findPieceById (clear_jumpable b j) i = cell (clear_jumpable b j) (fst sq) (snd sq)"
    using Some by (simp add: findPieceById_def find_square_clear_jumpable[OF assms])
  have fq: "findPieceById b i = cell b (fst sq) (snd sq)"
    using Some by (simp add: findPieceById_def)
  show ?thesis
  proof (cases "i = j")
    case True
    with Some show ?thesis
      unfolding fp fq cell_clear_jumpable[OF assms] by simp
  next
    case False
    have "find_square_by_id b j \<noteq> Some (fst sq, snd sq)"
    proof
      assume "find_square_by_id b j = Some (fst sq, snd sq)"
      from find_square_by_id_Some[OF this] si False show False
        by (auto simp: has_id_def split: option.splits)
    qed
    with False show ?thesis
      unfolding fp fq cell_clear_jumpable[OF assms] by (simp add: option.map_ident)
  qed
qed

lemma jump_cleared_clear: "wf_board b \<Longrightarrow> jump_cleared (clear_jumpable b i) i"
  by (simp add: jump_cleared_def findPieceById_clear_jumpable split: option.splits)

lemma jump_cleared_keep: "wf_board b \<Longrightarrow> jump_cleared b i \<Longrightarrow> jump_cleared (clear_jumpable b j) i"
  by (auto simp: jump_cleared_def findPieceById_clear_jumpable split: option.splits)

lemma wf_board_update_spells_loop: "wf_board b \<Longrightarrow> wf_board (fst (update_spells_loop ply sps b))"
  by (induction sps arbitrary: b)
     (auto simp: Let_def wf_board_clear_jumpable split: active_spell.splits)

lemma update_spells_loop_clears:
  "wf_board b \<Longrightarrow> jump_cleared b i \<or> (JumpSpell i e \<in> set sps \<and> e \<le> ply) \<Longrightarrow>
     jump_cleared (fst (update_spells_loop ply sps b)) i"
proof (induction sps arbitrary: b)
  case Nil
  then show ?case by simp
next
  case (Cons sp sps)
  show ?case
  proof (cases "ply \<ge> expiresAtPly sp")
    case False
    with Cons.prems have "jump_cleared b i \<or> (JumpSpell i e \<in> set sps \<and> e \<le> ply)" by auto
    from Cons.IH[OF Cons.prems(1) this] False show ?thesis by (simp add: Let_def)
  next
    case True
    show ?thesis
    proof (cases sp)
      case (JumpSpell j e')
      have "jump_cleared (clear_jumpable b j) i \<or> (JumpSpell i e \<in> set sps \<and> e \<le> ply)"
        using Cons.prems JumpSpell jump_cleared_clear jump_cleared_keep by auto
      from Cons.IH[OF wf_board_clear_jumpable[OF Cons.prems(1)] this] True JumpSpell
      show ?thesis by simp
    next
      case (FreezeSpell r c ids e')
      with Cons.prems have "jump_cleared b i \<or> (JumpSpell i e \<in> set sps \<and> e \<le> ply)" by auto
      from Cons.IH[OF Cons.prems(1) this] True FreezeSpell show ?thesis by simp
    qed
  qed
qed

lemma wf_board_initial: "wf_board (board (createInitialGameState seq))"
  by (simp add: createInitialGameState_def Let_def INITIAL_BOARD_SETUP_def wf_board_def)

lemma wf_board_castle_rook: "wf_board b \<Longrightarrow> wf_board (castle_rook b fromR fromC toC)"
  by (simp add: castle_rook_def Let_def wf_board_set_cell split: option.splits)

lemma wf_board_after_move:
  "wf_board b \<Longrightarrow> wf_board (board_after_move b ep movingPiece fromR fromC toR toC)"
  by (simp add: board_after_move_def Let_def wf_board_set_cell wf_board_castle_rook)

lemma applyMove_result:
  assumes "applyMove S fromR fromC toR toC sn pp = Inr (S', aw)" and "wf_board (board S)"
  shows "(aw \<and> plyCount S' = plyCount S \<and> activeSpells S' = activeSpells S \<and> wf_board (board S')) \<or>
         (\<exists>b. wf_board b \<and> plyCount S' = plyCount S + 1 \<and>
               board S' = fst (update_spells_loop (plyCount S + 1) (activeSpells S) b))"
proof (cases "cell (board S) fromR fromC")
  case None
  with assms show ?thesis by (simp add: applyMove_def split: if_splits)
next
  case (Some movingPiece)
  let ?b3 = "board_after_move (board S) (enPassantTarget S) movingPiece fromR fromC toR toC"
  have wf3: "wf_board ?b3" using assms(2) by (rule wf_board_after_move)
  show ?thesis
  proof (cases "is_promotion_move (movingPiece\<lparr>hasMoved := True\<rparr>) fromC toR toC")
    case False
    with assms(1) Some have "plyCount S' = plyCount S + 1 \<and>
        board S' = fst (update_spells_loop (plyCount S + 1) (activeSpells S) ?b3)"
      by (auto simp: applyMove_def Let_def finalizeMove_fields split: if_splits)
    with wf3 show ?thesis by blast
  next
    case True
    show ?thesis
    proof (cases "case pp of None \<Rightarrow> False | Some x \<Rightarrow> x \<noteq> []")
      case False
      with assms(1) Some True wf3 show ?thesis
        by (auto simp: applyMove_def Let_def split: if_splits)
    next
      case given: True
      let ?b4 = "set_cell ?b3 toR toC (Some (movingPiece\<lparr>hasMoved := True,
                   ptype := promoted_type (pcolor movingPiece) (the pp)\<rparr>))"
      have wf4: "wf_board ?b4" using wf3 by (rule wf_board_set_cell)
      from assms(1) Some True given have "plyCount S' = plyCount S + 1 \<and>
        board S' = fst (update_spells_loop (plyCount S + 1) (activeSpells S) ?b4)"
        by (auto simp: applyMove_def Let_def finalizeMove_fields split: if_splits)
      with wf4 show ?thesis by blast
    qed
  qed
qed

lemma applyPromotion_result:
  assumes "applyPromotion S pp sn = Inr (S', aw)" and "wf_board (board S)"
  shows "\<exists>b. wf_board b \<and> plyCount S' = plyCount S + 1 \<and>
               board S' = fst (update_spells_loop (plyCount S + 1) (activeSpells S) b)"
proof (cases "awaitingPromotion S")
  case None
  with assms(1) show ?thesis by (simp add: applyPromotion_def)
next
  case (Some promo)
  show ?thesis
  proof (cases "cell (board S) (ap_r promo) (ap_c promo)")
    case None
    with assms(1) Some show ?thesis by (simp add: applyPromotion_def Let_def)
  next
    case (Some p)
    let ?b = "set_cell (board S) (ap_r promo) (ap_c promo)
                   (Some (p\<lparr>ptype := promoted_type (ap_color promo) pp\<rparr>))"
    have wf: "wf_board ?b" using assms(2) by (rule wf_board_set_cell)
    from assms(1) Some \<open>awaitingPromotion S = Some promo\<close>
    have "plyCount S' = plyCount S + 1 \<and>
          board S' = fst (update_spells_loop (plyCount S + 1) (activeSpells S) ?b)"
      by (auto simp: applyPromotion_def Let_def finalizeMove_fields)
    with wf show ?thesis by blast
  qed
qed

lemma wf_board_applySpell:
  "applySpell S st r c = Inr (S', n) \<Longrightarrow> wf_board (board S) \<Longrightarrow> wf_board (board S')"
  by (auto simp: applySpell_def Let_def wf_board_set_cell split: if_splits option.splits)

lemma wf_board_applyMove:
  "applyMove S fromR fromC toR toC sn pp = Inr (S', aw) \<Longrightarrow> wf_board (board S) \<Longrightarrow>
     wf_board (board S')"
  using applyMove_result wf_board_update_spells_loop by fastforce

lemma wf_board_applyPromotion:
  "applyPromotion S pp sn = Inr (S', aw) \<Longrightarrow> wf_board (board S) \<Longrightarrow> wf_board (board S')"
  using applyPromotion_result wf_board_update_spells_loop by fastforce

lemma wf_board_applyResign: "wf_board (board S) \<Longrightarrow> wf_board (board (applyResign S))"
  by (simp add: applyResign_def Let_def)

lemma reachable_wf_board: "reachable S \<Longrightarrow> wf_board (board S)"
  by (induction rule: reachable.induct)
     (auto intro: wf_board_initial wf_board_applySpell wf_board_applyMove
        wf_board_applyPromotion wf_board_applyResign)

lemma expired_jump_cleared_move:
  assumes r: "reachable S" and m: "applyMove S fromR fromC toR toC sn pp = Inr (S', aw)"
    and j: "JumpSpell i e \<in> set (activeSpells S)" and e: "e \<le> plyCount S'"
  shows "jump_cleared (board S') i"
proof -
  from applyMove_result[OF m reachable_wf_board[OF r]] show ?thesis
  proof
    assume a: "aw \<and> plyCount S' = plyCount S \<and> activeSpells S' = activeSpells S \<and> wf_board (board S')"
    from reachable_spells_alive[OF r] j have "plyCount S < e" by (auto simp: spells_alive_def)
    with a e show ?thesis by simp
  next
    assume "\<exists>b. wf_board b \<and> plyCount S' = plyCount S + 1 \<and>
               board S' = fst (update_spells_loop (plyCount S + 1) (activeSpells S) b)"
    then obtain b where b: "wf_board b" "plyCount S' = plyCount S + 1"
               "board S' = fst (update_spells_loop (plyCount S + 1) (activeSpells S) b)" by blast
    from update_spells_loop_clears[OF b(1), of i e "activeSpells S" "plyCount S + 1"] j e b
    show ?thesis by simp
  qed
qed

lemma expired_jump_cleared_promotion:
  assumes r: "reachable S" and m: "applyPromotion S pp sn = Inr (S', aw)"
    and j: "JumpSpell i e \<in> set (activeSpells S)" and e: "e \<le> plyCount S'"
  shows "jump_cleared (board S') i"
proof -
  from applyPromotion_result[OF m reachable_wf_board[OF r]]
  obtain b where b: "wf_board b" "plyCount S' = plyCount S + 1"
               "board S' = fst (update_spells_loop (plyCount S + 1) (activeSpells S) b)" by blast
  from update_spells_loop_clears[OF b(1), of i e "activeSpells S" "plyCount S + 1"] j e b
  show ?thesis by simp
qed

text \<open>
  Claim C8. In every reachable state each active spell expires after the current ply
  count. And when \<^verbatim>\<open>applyMove\<close> or \<^verbatim>\<open>applyPromotion\<close> succeeds on a reachable state, every
  jump spell of that state that has expired by the new ply count, and is therefore
  removed, refers to a piece that is not jumpable in the new state if it is still on
  the board.
\<close>

theorem spell_lifetime:
  assumes "reachable S"
  shows "(\<forall>sp \<in> set (activeSpells S). plyCount S < expiresAtPly sp) \<and>
         (applyMove S fromR fromC toR toC spellNotation promotionPiece = Inr (S', aw) \<or>
          applyPromotion S promotionPiece' spellNotation = Inr (S', aw) \<longrightarrow>
          JumpSpell i e \<in> set (activeSpells S) \<longrightarrow> e \<le> plyCount S' \<longrightarrow>
          findPieceById (board S') i = Some p \<longrightarrow> \<not> isJumpable p)"
proof (intro conjI impI)
  show "\<forall>sp \<in> set (activeSpells S). plyCount S < expiresAtPly sp"
    using reachable_spells_alive[OF assms] by (simp add: spells_alive_def)
next
  assume "applyMove S fromR fromC toR toC spellNotation promotionPiece = Inr (S', aw) \<or>
          applyPromotion S promotionPiece' spellNotation = Inr (S', aw)"
    and "JumpSpell i e \<in> set (activeSpells S)" and "e \<le> plyCount S'"
    and p: "findPieceById (board S') i = Some p"
  then have "jump_cleared (board S') i"
    using expired_jump_cleared_move[OF assms] expired_jump_cleared_promotion[OF assms] by blast
  with p show "\<not> isJumpable p" by (simp add: jump_cleared_def)
qed

section \<open>Moves while a promotion is pending\<close>


lemma updateActiveSpells_ap:
  "updateActiveSpells (S\<lparr>awaitingPromotion := x\<rparr>) = (updateActiveSpells S)\<lparr>awaitingPromotion := x\<rparr>"
  by (simp add: updateActiveSpells_def Let_def)














lemma forget_promotion_awaiting:
  "T' = T\<lparr>awaitingPromotion := x\<rparr> \<Longrightarrow>
   forget_promotion (T'\<lparr>awaitingPromotion := y\<rparr>) = forget_promotion (T\<lparr>awaitingPromotion := y\<rparr>)"
  by (simp add: forget_promotion_def)













lemma projr_pair: "\<not> isl x \<Longrightarrow> x = Inr (fst (projr x), snd (projr x))"
  by (cases x) auto




section \<open>A jump spell that expires\<close>

lemma jump_game_1_facts:
  "canCastSpell (createInitialGameState 0) Jump"
  "cell (board (createInitialGameState 0)) 6 4 \<noteq> None"
  "isValidMove 6 4 4 4 (board jump_game_1) (currentPlayer jump_game_1)
     (enPassantTarget jump_game_1) (castlingRights jump_game_1)
     (activeSpells jump_game_1) (plyCount jump_game_1)"
  by code_simp+

lemma jump_game_2_facts:
  "isValidMove 1 4 3 4 (board jump_game_2) (currentPlayer jump_game_2)
     (enPassantTarget jump_game_2) (castlingRights jump_game_2)
     (activeSpells jump_game_2) (plyCount jump_game_2)"
  "activeSpells jump_game_2 = [JumpSpell (PieceId 6 4 21) 2]"
  "plyCount jump_game_2 = 1"
  by code_simp+

lemma jump_game_3_facts:
  "plyCount jump_game_3 = 2"
  "findPieceById (board jump_game_3) (PieceId 6 4 21) =
     Some \<lparr>ptype = ''P'', pcolor = White, pid = PieceId 6 4 21, isFrozen = False,
           isJumpable = False, hasMoved = True\<rparr>"
  "activeSpells jump_game_3 = []"
  by code_simp+

lemma jump_game_2_reachable: "reachable jump_game_2"
proof -
  have "\<not> isl (applySpell (createInitialGameState 0) Jump 6 4)"
    using jump_game_1_facts(1,2) by (simp add: applySpell_error_iff)
  then have s1: "applySpell (createInitialGameState 0) Jump 6 4 =
      Inr (jump_game_1, snd (projr (applySpell (createInitialGameState 0) Jump 6 4)))"
    unfolding jump_game_1_def by (rule projr_pair)
  have r1: "reachable jump_game_1"
    by (rule reachable.spell[OF reachable.initial _ s1]) (simp add: on_board_def)
  have "\<not> isl (applyMove jump_game_1 6 4 4 4 (Some ''jump@e2'') None)"
    using jump_game_1_facts(3) by (simp add: applyMove_error_iff)
  then have m2: "applyMove jump_game_1 6 4 4 4 (Some ''jump@e2'') None =
      Inr (jump_game_2, snd (projr (applyMove jump_game_1 6 4 4 4 (Some ''jump@e2'') None)))"
    unfolding jump_game_2_def by (rule projr_pair)
  show ?thesis
    by (rule reachable.move[OF r1 _ _ m2]) (simp_all add: on_board_def)
qed

theorem spell_lifetime_witness:
  "reachable jump_game_2 \<and>
   activeSpells jump_game_2 = [JumpSpell (PieceId 6 4 21) 2] \<and> plyCount jump_game_2 < 2 \<and>
   applyMove jump_game_2 1 4 3 4 None None =
     Inr (jump_game_3, snd (projr (applyMove jump_game_2 1 4 3 4 None None))) \<and>
   2 \<le> plyCount jump_game_3 \<and>
   findPieceById (board jump_game_3) (PieceId 6 4 21) =
     Some \<lparr>ptype = ''P'', pcolor = White, pid = PieceId 6 4 21, isFrozen = False,
           isJumpable = False, hasMoved = True\<rparr> \<and>
   \<not> isJumpable \<lparr>ptype = ''P'', pcolor = White, pid = PieceId 6 4 21, isFrozen = False,
           isJumpable = False, hasMoved = True\<rparr>"
proof -
  let ?p = "\<lparr>ptype = ''P'', pcolor = White, pid = PieceId 6 4 21, isFrozen = False,
           isJumpable = False, hasMoved = True\<rparr>"
  have "\<not> isl (applyMove jump_game_2 1 4 3 4 None None)"
    using jump_game_2_facts(1) by (simp add: applyMove_error_iff)
  then have m3: "applyMove jump_game_2 1 4 3 4 None None =
      Inr (jump_game_3, snd (projr (applyMove jump_game_2 1 4 3 4 None None)))"
    unfolding jump_game_3_def by (rule projr_pair)
  note t = spell_lifetime[OF jump_game_2_reachable, where fromR = 1 and fromC = 4 and toR = 3
      and toC = 4 and spellNotation = None and promotionPiece = None and S' = jump_game_3
      and aw = "snd (projr (applyMove jump_game_2 1 4 3 4 None None))"
      and i = "PieceId 6 4 21" and e = 2 and p = ?p]
  from t have a: "plyCount jump_game_2 < 2" by (simp add: jump_game_2_facts(2))
  from t m3 jump_game_2_facts(2) jump_game_3_facts have b: "\<not> isJumpable ?p" by simp
  from a b m3 jump_game_2_reachable jump_game_2_facts jump_game_3_facts show ?thesis by simp
qed

end
